theory Spec2Isabelle
  imports Complex_Main
begin

section \<open>The Levermann score filter (autotrader/filter/levermann_score.py)\<close>

text \<open>
  The filter computes six sub-scores from one data snapshot (a stock object with statement
  facts and analyst recommendations, the stock's price bars and the bars of its first
  index), adds them up and compares the sum with two thresholds.

  Conventions of the embedding:
  \<^item> The numbers that the stock object delivers (statement facts, analyst data) are
    modelled as \<open>real\<close>. A price in the bars array is a float that is either a number
    or not-a-number (\<open>pyfloat\<close>): arithmetic on numbers is exact, not-a-number
    propagates through arithmetic and makes every comparison false. Rounding and the
    infinities are outside the model.
  \<^item> An exception is a value \<open>Inl err\<close> of the sum type \<open>error + 'a\<close>; a call that
    returns \<open>v\<close> is \<open>Inr v\<close>. Calls are chained with \<open>bindE\<close>, in the order in which
    Python evaluates them.
  \<^item> Values that reach the filter through \<open>stock.get_data\<close> are JSON documents
    (\<open>pyobj\<close>); subscripting them raises exactly as Python does.
  \<^item> The bars are a two-dimensional array whose rows hold the close price (column 0) and
    the timestamp (column 5) side by side, so its entries are Python objects and the
    arithmetic on them is Python's: dividing by a zero price raises ZeroDivisionError.
  \<^item> What the filter calls in other modules and in libraries is a parameter of the model:
    the stock's \<open>get_data\<close> and \<open>get_data_attr\<close>, \<open>StockIsHot.get_performance\<close>,
    and \<open>datetime.strptime\<close>.
\<close>

subsection \<open>Exceptions and their propagation\<close>

datatype error =
  KeyError | IndexError | TypeError | ZeroDivisionError | ValueError | AttributeError

fun bindE :: "error + 'a \<Rightarrow> ('a \<Rightarrow> error + 'b) \<Rightarrow> error + 'b" where
  "bindE (Inl err) f = Inl err"
| "bindE (Inr v) f = f v"

definition py_div :: "real \<Rightarrow> real \<Rightarrow> error + real" where
  \<comment> \<open>\<open>a / b\<close> on Python numbers\<close>
  "py_div a b = (if b = 0 then Inl ZeroDivisionError else Inr (a / b))"

subsection \<open>Prices: floats with not-a-number\<close>

datatype pyfloat = Num real | NaN

instantiation pyfloat :: "{ord, minus, times}"
begin

fun less_pyfloat :: "pyfloat \<Rightarrow> pyfloat \<Rightarrow> bool" where
  "less_pyfloat (Num a) (Num b) = (a < b)"
| "less_pyfloat (Num a) NaN = False"
| "less_pyfloat NaN b = False"

fun less_eq_pyfloat :: "pyfloat \<Rightarrow> pyfloat \<Rightarrow> bool" where
  "less_eq_pyfloat (Num a) (Num b) = (a \<le> b)"
| "less_eq_pyfloat (Num a) NaN = False"
| "less_eq_pyfloat NaN b = False"

fun minus_pyfloat :: "pyfloat \<Rightarrow> pyfloat \<Rightarrow> pyfloat" where
  "minus_pyfloat (Num a) (Num b) = Num (a - b)"
| "minus_pyfloat (Num a) NaN = NaN"
| "minus_pyfloat NaN b = NaN"

fun times_pyfloat :: "pyfloat \<Rightarrow> pyfloat \<Rightarrow> pyfloat" where
  "times_pyfloat (Num a) (Num b) = Num (a * b)"
| "times_pyfloat (Num a) NaN = NaN"
| "times_pyfloat NaN b = NaN"

instance ..

end

fun float_div :: "pyfloat \<Rightarrow> pyfloat \<Rightarrow> error + pyfloat" where
  \<comment> \<open>\<open>a / b\<close> on Python floats: a zero divisor raises, whatever the dividend\<close>
  "float_div (Num a) (Num b) = (if b = 0 then Inl ZeroDivisionError else Inr (Num (a / b)))"
| "float_div NaN (Num b) = (if b = 0 then Inl ZeroDivisionError else Inr NaN)"
| "float_div a NaN = Inr NaN"

subsection \<open>Python objects delivered by the data adapter\<close>

datatype pyobj =
  PyNone
| PyNum real
| PyStr string
| PyList "pyobj list"
| PyDict "(string \<times> pyobj) list"

fun getitem_key :: "pyobj \<Rightarrow> string \<Rightarrow> error + pyobj" where
  \<comment> \<open>\<open>obj['key']\<close>\<close>
  "getitem_key (PyDict kvs) k = (case map_of kvs k of None \<Rightarrow> Inl KeyError | Some v \<Rightarrow> Inr v)"
| "getitem_key _ k = Inl TypeError"

fun getitem_idx :: "pyobj \<Rightarrow> nat \<Rightarrow> error + pyobj" where
  \<comment> \<open>\<open>obj[i]\<close> for a literal index \<open>i \<ge> 0\<close>; the keys of a JSON dictionary are strings\<close>
  "getitem_idx (PyList xs) i = (if i < length xs then Inr (xs ! i) else Inl IndexError)"
| "getitem_idx (PyStr s) i = (if i < length s then Inr (PyStr [s ! i]) else Inl IndexError)"
| "getitem_idx (PyDict kvs) i = Inl KeyError"
| "getitem_idx _ i = Inl TypeError"

fun truthy :: "pyobj \<Rightarrow> bool" where
  \<comment> \<open>\<open>if obj:\<close>\<close>
  "truthy PyNone = False"
| "truthy (PyNum r) = (r \<noteq> 0)"
| "truthy (PyStr s) = (s \<noteq> [])"
| "truthy (PyList xs) = (xs \<noteq> [])"
| "truthy (PyDict kvs) = (kvs \<noteq> [])"

fun py_iter :: "pyobj \<Rightarrow> error + pyobj list" where
  \<comment> \<open>the items a \<open>for\<close> loop over the object visits\<close>
  "py_iter (PyList xs) = Inr xs"
| "py_iter (PyDict kvs) = Inr (map (\<lambda>kv. PyStr (fst kv)) kvs)"
| "py_iter (PyStr s) = Inr (map (\<lambda>c. PyStr [c]) s)"
| "py_iter _ = Inl TypeError"

fun as_num :: "pyobj \<Rightarrow> error + real" where
  \<comment> \<open>an operand of the arithmetic \<open>0 + a * b\<close>: anything but a number ends in TypeError\<close>
  "as_num (PyNum r) = Inr r"
| "as_num _ = Inl TypeError"

subsection \<open>The snapshot and the filter object\<close>

record stock =
  get_data :: "string \<Rightarrow> pyobj"
  get_data_attr :: "string \<Rightarrow> string \<Rightarrow> bool \<Rightarrow> nat \<Rightarrow> error + real"
    \<comment> \<open>kind, field, \<open>annual\<close>, \<open>quarter_diff\<close>\<close>

record bar =
  close :: pyfloat
  timestamp :: int

datatype perf = NdArray "pyfloat list" bool | PlainSeq "pyfloat list"
  \<comment> \<open>what \<open>get_performance\<close> hands back. \<open>NdArray buffer flipped\<close> is a
      one-dimensional array over the items \<open>buffer\<close>, in memory order; \<open>flipped\<close>
      says that its stride is negative, so that item 0 of the array is the last item of the
      buffer. \<open>PlainSeq\<close> is a sequence with no \<open>size\<close> attribute. A result that
      cannot be sliced by \<open>[::-1]\<close> is the error TypeError.\<close>

record externals =
  get_performance :: "pyfloat list \<Rightarrow> nat \<Rightarrow> error + perf"
  strptime :: "string \<Rightarrow> error + int"

datatype decision = BUY | SELL | HOLD

record levermann_score =
  buy :: int
  sell :: int
  calc :: int
  stock :: stock
  bars :: "bar list option"
  index_bars :: "bar list option"

definition rows_of :: "bar list option \<Rightarrow> error + bar list" where
  \<comment> \<open>the rows that \<open>bars[...]\<close> subscripts; subscripting \<open>None\<close> raises TypeError\<close>
  "rows_of bs = (case bs of None \<Rightarrow> Inl TypeError | Some rows \<Rightarrow> Inr rows)"

definition column0 :: "bar list option \<Rightarrow> error + pyfloat list" where
  \<comment> \<open>\<open>bars[:, 0]\<close>\<close>
  "column0 bs = bindE (rows_of bs) (\<lambda>rows. Inr (map close rows))"

definition item_last :: "'a list \<Rightarrow> error + 'a" where
  \<comment> \<open>\<open>xs[-1]\<close>\<close>
  "item_last xs = (if xs = [] then Inl IndexError else Inr (last xs))"

definition item_at :: "'a list \<Rightarrow> nat \<Rightarrow> error + 'a" where
  \<comment> \<open>\<open>xs[i]\<close> for \<open>i \<ge> 0\<close>\<close>
  "item_at xs i = (if i < length xs then Inr (xs ! i) else Inl IndexError)"

subsection \<open>Trend rating\<close>

fun trends_loop :: "pyobj list \<Rightarrow> real \<Rightarrow> real \<Rightarrow> error + real \<times> real" where
  "trends_loop [] nominator denominator = Inr (nominator, denominator)"
| "trends_loop (data # datas) nominator denominator =
     bindE (getitem_key data ''Recommendation'') (\<lambda>rec.
     bindE (getitem_key data ''NumberOfAnalysts'') (\<lambda>num.
     bindE (as_num rec) (\<lambda>r.
     bindE (as_num num) (\<lambda>n.
     trends_loop datas (nominator + r * n) (denominator + n)))))"

definition calculate_trendsrating :: "pyobj \<Rightarrow> error + real" where
  "calculate_trendsrating datas =
     bindE (py_iter datas) (\<lambda>items.
     bindE (trends_loop items 0 0) (\<lambda>(nominator, denominator).
     (case py_div nominator denominator of
        Inl ZeroDivisionError \<Rightarrow> Inr 0
      | Inl err \<Rightarrow> Inl err
      | Inr v \<Rightarrow> Inr v)))"

definition trends_distribution :: "levermann_score \<Rightarrow> nat \<Rightarrow> error + pyobj" where
  \<comment> \<open>\<open>self.stock.get_data("recommendation")['trends'][n]['distributionList']\<close>\<close>
  "trends_distribution e n =
     bindE (getitem_key (get_data (stock e) ''recommendation'') ''trends'') (\<lambda>trends.
     bindE (getitem_idx trends n) (\<lambda>trend.
     getitem_key trend ''distributionList''))"

subsection \<open>Ratios of the quality score\<close>

definition calculate_shareholders_equity :: "levermann_score \<Rightarrow> error + real" where
  "calculate_shareholders_equity e =
     bindE (get_data_attr (stock e) ''balance'' ''totalAssets'' False 0) (\<lambda>total_assets.
     bindE (get_data_attr (stock e) ''balance'' ''totalCurrentLiabili'' False 0)
       (\<lambda>current_liabilities.
     Inr (total_assets - current_liabilities)))"

definition calculate_roe :: "levermann_score \<Rightarrow> error + real" where
  "calculate_roe e =
     bindE (get_data_attr (stock e) ''income'' ''netIncome'' False 0) (\<lambda>net_income.
     bindE (calculate_shareholders_equity e) (\<lambda>shareholders_equity.
     if shareholders_equity \<noteq> 0 then py_div net_income shareholders_equity else Inr 0))"

definition calculate_ebit_margin :: "levermann_score \<Rightarrow> error + real" where
  "calculate_ebit_margin e =
     bindE (get_data_attr (stock e) ''income'' ''netBeforeTaxes'' False 0)
       (\<lambda>net_income_before_taxes.
     bindE (get_data_attr (stock e) ''balance'' ''accumulatedDepreciation'' False 0)
       (\<lambda>accumulated_depreciation.
     bindE (get_data_attr (stock e) ''income'' ''totalRevenue'' False 0) (\<lambda>total_revenue.
     if total_revenue > 0
     then py_div (net_income_before_taxes - accumulated_depreciation) total_revenue
     else Inr 0)))"

definition calculate_shareholders_equity_ratio :: "levermann_score \<Rightarrow> error + real" where
  "calculate_shareholders_equity_ratio e =
     bindE (get_data_attr (stock e) ''balance'' ''totalAssets'' False 0) (\<lambda>total_assets.
     if total_assets > 0
     then bindE (calculate_shareholders_equity e) (\<lambda>shareholders_equity.
          py_div shareholders_equity total_assets)
     else Inr 0)"

subsection \<open>Earnings per share and price/earnings ratios\<close>

fun eps_avg_loop :: "levermann_score \<Rightarrow> nat list \<Rightarrow> real \<Rightarrow> nat \<Rightarrow> error + real \<times> nat" where
  "eps_avg_loop e [] eps_n eps_counter = Inr (eps_n, eps_counter)"
| "eps_avg_loop e (idx # idxs) eps_n eps_counter =
     bindE (get_data_attr (stock e) ''income'' ''dilutedEpsExtraOrd'' True (idx * 4))
       (\<lambda>eps_annual.
     if eps_annual \<noteq> - 1
     then eps_avg_loop e idxs (eps_n + eps_annual) (eps_counter + 1)
     else eps_avg_loop e idxs eps_n eps_counter)"

definition calculate_eps_avg :: "levermann_score \<Rightarrow> nat \<Rightarrow> error + real" where
  "calculate_eps_avg e years =
     bindE (eps_avg_loop e [0..<years] 0 0) (\<lambda>(eps_n, eps_counter).
     if eps_counter = 0 then Inr (- 1) else py_div eps_n (real eps_counter))"

definition calculate_price_earnings_ratios ::
    "levermann_score \<Rightarrow> error + pyfloat list option" where
  "calculate_price_earnings_ratios e =
     bindE (get_data_attr (stock e) ''recommendation'' ''eps'' False 0) (\<lambda>eps_estimate.
     bindE (column0 (bars e)) (\<lambda>close_prices.
     bindE (item_last close_prices) (\<lambda>last_close.
     bindE (calculate_eps_avg e 5) (\<lambda>eps_avg.
     if eps_estimate > 0 \<and> eps_avg > 0
     then bindE (float_div last_close (Num eps_estimate)) (\<lambda>per.
          bindE (float_div last_close (Num eps_avg)) (\<lambda>per_5.
          Inr (Some [per, per_5])))
     else Inr None))))"

fun eps_last_loop :: "levermann_score \<Rightarrow> nat list \<Rightarrow> real \<Rightarrow> error + real" where
  "eps_last_loop e [] eps_last = Inr eps_last"
| "eps_last_loop e (idx # idxs) eps_last =
     bindE (get_data_attr (stock e) ''income'' ''dilutedEpsExtraOrd'' True (idx * 4))
       (\<lambda>eps_annual.
     if eps_annual \<noteq> - 1
     then eps_last_loop e idxs eps_annual
     else eps_last_loop e idxs eps_last)"

definition calculate_eps_difference :: "levermann_score \<Rightarrow> error + real" where
  "calculate_eps_difference e =
     bindE (get_data_attr (stock e) ''recommendation'' ''eps'' False 0) (\<lambda>eps_estimate.
     bindE (eps_last_loop e [0..<5] 0) (\<lambda>eps_last.
     (case py_div (100 * (eps_estimate - eps_last)) eps_estimate of
        Inl ZeroDivisionError \<Rightarrow> Inr 0
      | Inl err \<Rightarrow> Inl err
      | Inr eps_last_diff_prc \<Rightarrow> Inr eps_last_diff_prc)))"

subsection \<open>Impact of the last quarterly figures\<close>

fun before_T00 :: "string \<Rightarrow> string" where
  \<comment> \<open>\<open>s.split('T00')[0]\<close>: the text before the first \<open>T00\<close>, or all of it\<close>
  "before_T00 [] = []"
| "before_T00 (c # cs) = (if take 3 (c # cs) = ''T00'' then [] else c # before_T00 cs)"

fun split_T00_first :: "pyobj \<Rightarrow> error + string" where
  "split_T00_first (PyStr s) = Inr (before_T00 s)"
| "split_T00_first _ = Inl AttributeError"

definition last_index_before :: "bar list \<Rightarrow> int \<Rightarrow> error + nat" where
  \<comment> \<open>\<open>np.where(bars[:, 5] < d)[0][-1]\<close>\<close>
  "last_index_before rows d =
     item_last (filter (\<lambda>i. timestamp (rows ! i) < d) [0..<length rows])"

definition rows_pair :: "bar list \<Rightarrow> nat \<Rightarrow> bar list" where
  \<comment> \<open>\<open>bars[[idx, idx - 1]]\<close> for a valid \<open>idx\<close>; the index \<open>-1\<close> is the last row\<close>
  "rows_pair rows idx =
     [rows ! idx, rows ! (if idx = 0 then length rows - 1 else idx - 1)]"

definition calculate_impact_of_quartly_figures ::
    "externals \<Rightarrow> levermann_score \<Rightarrow> error + pyfloat" where
  "calculate_impact_of_quartly_figures x e =
     (let last_quarterly = get_data (stock e) ''income'' in
      if truthy last_quarterly
      then
        bindE (getitem_idx last_quarterly 0) (\<lambda>first_record.
        bindE (getitem_key first_record ''reportDate'') (\<lambda>report_date.
        bindE (split_T00_first report_date) (\<lambda>date_text.
        bindE (strptime x date_text) (\<lambda>last_quarterly.
        bindE (rows_of (index_bars e)) (\<lambda>index_rows.
        bindE (last_index_before index_rows last_quarterly) (\<lambda>idx_index_last_quarterly.
        bindE (rows_of (bars e)) (\<lambda>stock_rows.
        bindE (last_index_before stock_rows last_quarterly) (\<lambda>idx_stock_last_quarterly.
        let vals_stock_last_quarterly = rows_pair stock_rows idx_stock_last_quarterly;
            vals_index_last_quarterly = rows_pair index_rows idx_index_last_quarterly
        in
        bindE (float_div (Num 100 * (close (vals_index_last_quarterly ! 1)
                                     - close (vals_index_last_quarterly ! 0)))
                         (close (vals_index_last_quarterly ! 1))) (\<lambda>perf_quarterly_index_prc.
        bindE (float_div (Num 100 * (close (vals_stock_last_quarterly ! 1)
                                     - close (vals_stock_last_quarterly ! 0)))
                         (close (vals_stock_last_quarterly ! 1))) (\<lambda>perf_quarterly_stock_prc.
        Inr (perf_quarterly_stock_prc - perf_quarterly_index_prc)))))))))))
      else Inr (Num (- 1)))"

subsection \<open>Rating change and price performance\<close>

definition calculate_rating_differences_in_percent :: "levermann_score \<Rightarrow> error + real" where
  "calculate_rating_differences_in_percent e =
     bindE (trends_distribution e 0) (\<lambda>datas.
     bindE (calculate_trendsrating datas) (\<lambda>rating.
     bindE (trends_distribution e 2) (\<lambda>datas_4w.
     bindE (calculate_trendsrating datas_4w) (\<lambda>rating_4w.
     py_div (100 * (rating_4w - rating)) rating))))"

definition calculate_performance :: "levermann_score \<Rightarrow> error + pyfloat list" where
  "calculate_performance e =
     bindE (column0 (bars e)) (\<lambda>close_prices.
     bindE (item_at close_prices (length close_prices div 2)) (\<lambda>close_6m.
     bindE (item_last close_prices) (\<lambda>last_close.
     bindE (column0 (bars e)) (\<lambda>close_prices_again.
     bindE (item_at close_prices_again 0) (\<lambda>first_close.
     bindE (float_div last_close close_6m) (\<lambda>quot_6m.
     bindE (float_div last_close first_close) (\<lambda>quot_12m.
     Inr [quot_6m - Num 1, quot_12m - Num 1])))))))"

fun reversed :: "perf \<Rightarrow> perf" where
  \<comment> \<open>\<open>seq[::-1]\<close>: a view of the same buffer with the stride negated, or a reversed
      copy of a plain sequence\<close>
  "reversed (NdArray buffer flipped) = NdArray buffer (\<not> flipped)"
| "reversed (PlainSeq xs) = PlainSeq (rev xs)"

fun has_size :: "perf \<Rightarrow> bool" where
  \<comment> \<open>\<open>hasattr(seq, 'size')\<close>\<close>
  "has_size (NdArray buffer flipped) = True"
| "has_size (PlainSeq xs) = False"

fun elements :: "perf \<Rightarrow> pyfloat list" where
  \<comment> \<open>the items in index order: \<open>seq[0]\<close>, \<open>seq[1]\<close>, ...\<close>
  "elements (NdArray buffer flipped) = (if flipped then rev buffer else buffer)"
| "elements (PlainSeq xs) = xs"

fun nditer :: "perf \<Rightarrow> pyfloat list" where
  \<comment> \<open>the items in the order in which \<open>np.nditer(seq)\<close> visits them: the iterator
      keeps the memory order of an array and walks an axis of negative stride backwards,
      so it visits the buffer front to back\<close>
  "nditer (NdArray buffer flipped) = buffer"
| "nditer (PlainSeq xs) = xs"

function compare_loop ::
    "pyfloat list \<Rightarrow> pyfloat list \<Rightarrow> nat \<Rightarrow> int \<Rightarrow> error + int" where
  \<comment> \<open>\<open>for idx, perf in enumerate(index_items)\<close>, from position \<open>idx\<close> on, where
      \<open>index_items\<close> are the items in the order of the iterator and \<open>stock_perf[idx]\<close>
      subscripts the stock sequence\<close>
  "compare_loop index_items stock_perf idx perf_measure =
     (if idx < length index_items
      then bindE (item_at stock_perf idx) (\<lambda>stock_item.
           if index_items ! idx > stock_item
           then compare_loop index_items stock_perf (idx + 1) (perf_measure + 1)
           else compare_loop index_items stock_perf (idx + 1) (perf_measure - 1))
      else Inr perf_measure)"
  by pat_completeness auto
termination
  by (relation "measure (\<lambda>(index_items, stock_perf, idx, perf_measure).
        length index_items - idx)")
     auto

declare compare_loop.simps [simp del]

definition compare_index_with_stock_performance ::
    "externals \<Rightarrow> levermann_score \<Rightarrow> error + int" where
  "compare_index_with_stock_performance x e =
     bindE (column0 (bars e)) (\<lambda>close_prices.
     bindE (get_performance x close_prices 30) (\<lambda>stock_result.
     bindE (column0 (index_bars e)) (\<lambda>index_closes.
     bindE (get_performance x index_closes 30) (\<lambda>index_result.
     let stock_perf = reversed stock_result;
         index_perf = reversed index_result;
         perf_measure = 0
     in
     if \<not> has_size stock_perf \<or> \<not> has_size index_perf
        \<or> length (elements stock_perf) = 0 \<or> length (elements index_perf) = 0
     then Inr perf_measure
     else compare_loop (nditer index_perf) (elements stock_perf) 0 perf_measure))))"

subsection \<open>The six sub-scores\<close>

definition calculate_quality :: "levermann_score \<Rightarrow> error + int" where
  "calculate_quality e =
     bindE (calculate_roe e) (\<lambda>roe.
     bindE (calculate_ebit_margin e) (\<lambda>ebit_margin.
     bindE (calculate_shareholders_equity_ratio e) (\<lambda>shareholders_equity_ratio.
     let levermann = 0;
         levermann = (if roe > 0.2 then levermann + 1
                      else if roe < 0.1 then levermann - 1 else levermann);
         levermann = (if ebit_margin > 0.12 then levermann + 1
                      else if ebit_margin < 0.06 then levermann - 1 else levermann);
         levermann = (if shareholders_equity_ratio > 0.25 then levermann + 1
                      else if shareholders_equity_ratio < 0.15 then levermann - 1
                      else levermann)
     in Inr levermann)))"

fun rating_loop :: "pyfloat list \<Rightarrow> int \<Rightarrow> int" where
  "rating_loop [] levermann = levermann"
| "rating_loop (ratio # ratios) levermann =
     (if ratio > Num 0 \<or> ratio < Num 12 then rating_loop ratios (levermann + 1)
      else if ratio > Num 12 \<or> ratio < Num 0 then rating_loop ratios (levermann - 1)
      else rating_loop ratios levermann)"

definition calculate_rating :: "levermann_score \<Rightarrow> error + int" where
  "calculate_rating e =
     bindE (calculate_price_earnings_ratios e) (\<lambda>price_earnings_ratios.
     (case price_earnings_ratios of
        None \<Rightarrow> Inr (- 1)
      | Some ratios \<Rightarrow> Inr (rating_loop ratios 0)))"

definition calculate_mood :: "externals \<Rightarrow> levermann_score \<Rightarrow> error + int" where
  "calculate_mood x e =
     bindE (trends_distribution e 0) (\<lambda>datas.
     bindE (calculate_trendsrating datas) (\<lambda>rating.
     bindE (calculate_impact_of_quartly_figures x e) (\<lambda>impact_quartly.
     let levermann = 0;
         levermann = (if rating \<ge> 2.5 then levermann + 1
                      else if rating \<le> 1.5 then levermann - 1 else levermann);
         levermann = (if impact_quartly > Num 1.0 then levermann + 1
                      else if impact_quartly < Num (- 1.0) then levermann - 1 else levermann)
     in Inr levermann)))"

fun performance_loop :: "pyfloat list \<Rightarrow> int \<Rightarrow> int" where
  "performance_loop [] levermann = levermann"
| "performance_loop (per_it # rest) levermann =
     (if per_it > Num 0.05 then performance_loop rest (levermann + 1)
      else if per_it < Num (- 0.05) then performance_loop rest (levermann - 1)
      else performance_loop rest levermann)"

definition calculate_momentum :: "levermann_score \<Rightarrow> error + int" where
  "calculate_momentum e =
     bindE (calculate_rating_differences_in_percent e) (\<lambda>rating_dif_prc.
     bindE (calculate_performance e) (\<lambda>performance_list_stock.
     let levermann = 0;
         levermann = (if rating_dif_prc > 10.0 then levermann + 1
                      else if rating_dif_prc < 10.0 then levermann - 1 else levermann);
         levermann = performance_loop performance_list_stock levermann;
         levermann =
           (if performance_list_stock ! 0 > Num 0.05 \<and>
               ((Num 0.05 > performance_list_stock ! 1
                 \<and> performance_list_stock ! 1 > Num (- 0.05))
                \<or> performance_list_stock ! 1 < Num (- 0.05))
            then levermann + 1
            else if performance_list_stock ! 0 < Num (- 0.05) \<and>
               ((Num 0.05 > performance_list_stock ! 1
                 \<and> performance_list_stock ! 1 > Num (- 0.05))
                \<or> performance_list_stock ! 1 > Num 0.05)
            then levermann - 1
            else levermann)
     in Inr levermann))"

definition calculate_technique :: "externals \<Rightarrow> levermann_score \<Rightarrow> error + int" where
  "calculate_technique x e =
     bindE (compare_index_with_stock_performance x e) (\<lambda>perf_measure.
     let levermann = 0;
         levermann = (if perf_measure = 3 then levermann + 1
                      else if perf_measure = - 3 then levermann - 1 else levermann)
     in Inr levermann)"

definition calculate_growing :: "levermann_score \<Rightarrow> error + int" where
  "calculate_growing e =
     bindE (calculate_eps_difference e) (\<lambda>eps_last_diff_prc.
     let levermann = 0;
         levermann = (if eps_last_diff_prc > 5.0 then levermann + 1
                      else if eps_last_diff_prc < - 5.0 then levermann - 1 else levermann)
     in Inr levermann)"

subsection \<open>Aggregation and decision\<close>

definition levermann_sum :: "externals \<Rightarrow> levermann_score \<Rightarrow> error + int" where
  \<comment> \<open>the expression assigned to \<open>levermann\<close> inside the \<open>try\<close> block of \<open>analyse\<close>\<close>
  "levermann_sum x e =
     bindE (calculate_quality e) (\<lambda>quality.
     bindE (calculate_rating e) (\<lambda>rating.
     bindE (calculate_mood x e) (\<lambda>mood.
     bindE (calculate_momentum e) (\<lambda>momentum.
     bindE (calculate_technique x e) (\<lambda>technique.
     bindE (calculate_growing e) (\<lambda>growing.
     Inr (quality + rating + mood + momentum + technique + growing)))))))"

definition threshold_decision :: "int \<Rightarrow> int \<Rightarrow> int \<Rightarrow> decision" where
  \<comment> \<open>the comparisons that end \<open>analyse\<close>, on \<open>self.calc\<close>, \<open>self.buy\<close>, \<open>self.sell\<close>\<close>
  "threshold_decision c b s = (if c \<ge> b then BUY else if c \<le> s then SELL else HOLD)"

definition caught :: "error \<Rightarrow> bool" where
  \<comment> \<open>\<open>except (KeyError, IndexError, TypeError)\<close>\<close>
  "caught err = (err = KeyError \<or> err = IndexError \<or> err = TypeError)"

definition analyse :: "externals \<Rightarrow> levermann_score \<Rightarrow> (error + decision) \<times> levermann_score" where
  \<comment> \<open>the result (a decision, or the exception that leaves the method) and the filter
      object afterwards\<close>
  "analyse x e =
     (case levermann_sum x e of
        Inr levermann \<Rightarrow>
          (let e' = e\<lparr>calc := levermann\<rparr>
           in (Inr (threshold_decision (calc e') (buy e') (sell e')), e'))
      | Inl err \<Rightarrow>
          if caught err
          then (Inr (threshold_decision (calc e) (buy e) (sell e)), e)
          else (Inl err, e))"

definition get_calculation :: "levermann_score \<Rightarrow> int" where
  "get_calculation e = calc e"

subsection \<open>Example snapshots\<close>

text \<open>
  A well-formed snapshot, used to evaluate the filter on concrete data: the balance and
  income facts of a profitable company, annual diluted earnings per share known for the
  last two years only (2 at quarter offset 0, 1 at offset 4, the sentinel \<open>-1\<close> before),
  three analyst trend snapshots, no income statement record, and three bars each for the
  stock and the index. The analysts' earnings estimate and the latest trend distribution
  are left open.
\<close>

definition example_attr :: "real \<Rightarrow> string \<Rightarrow> string \<Rightarrow> bool \<Rightarrow> nat \<Rightarrow> error + real" where
  "example_attr eps kind field annual quarter_diff =
     (if kind = ''balance'' \<and> field = ''totalAssets'' then Inr 1000000
      else if kind = ''balance'' \<and> field = ''totalCurrentLiabili'' then Inr 400000
      else if kind = ''balance'' \<and> field = ''accumulatedDepreciation'' then Inr 10000
      else if kind = ''income'' \<and> field = ''netIncome'' then Inr 150000
      else if kind = ''income'' \<and> field = ''netBeforeTaxes'' then Inr 100000
      else if kind = ''income'' \<and> field = ''totalRevenue'' then Inr 900000
      else if kind = ''income'' \<and> field = ''dilutedEpsExtraOrd'' then
        (if quarter_diff = 0 then Inr 2 else if quarter_diff = 4 then Inr 1 else Inr (- 1))
      else if kind = ''recommendation'' \<and> field = ''eps'' then Inr eps
      else Inl KeyError)"

definition bucket :: "real \<Rightarrow> real \<Rightarrow> pyobj" where
  "bucket rating analysts =
     PyDict [(''Recommendation'', PyNum rating), (''NumberOfAnalysts'', PyNum analysts)]"

definition scenario_b_distribution :: pyobj where
  "scenario_b_distribution = PyList [bucket 5 3, bucket 1 1]"

definition example_data :: "pyobj \<Rightarrow> string \<Rightarrow> pyobj" where
  "example_data latest kind =
     (if kind = ''recommendation'' then
        PyDict [(''trends'',
          PyList [PyDict [(''distributionList'', latest)],
                  PyDict [(''distributionList'', scenario_b_distribution)],
                  PyDict [(''distributionList'', scenario_b_distribution)]])]
      else if kind = ''income'' then PyList []
      else PyNone)"

definition example_bars :: "bar list" where
  "example_bars = [\<lparr>close = Num 10, timestamp = 1\<rparr>, \<lparr>close = Num 10, timestamp = 2\<rparr>,
                   \<lparr>close = Num 10, timestamp = 3\<rparr>]"

definition example_filter :: "real \<Rightarrow> pyobj \<Rightarrow> int \<Rightarrow> levermann_score" where
  "example_filter eps latest previous =
     \<lparr>buy = 3, sell = - 2, calc = previous,
      stock = \<lparr>get_data = example_data latest, get_data_attr = example_attr eps\<rparr>,
      bars = Some example_bars, index_bars = Some example_bars\<rparr>"

definition no_performance :: externals where
  \<comment> \<open>fewer bars than one interval: \<open>get_performance\<close> yields an empty array\<close>
  "no_performance =
     \<lparr>get_performance = (\<lambda>closes interval. Inr (NdArray [] False)),
      strptime = (\<lambda>text. Inl ValueError)\<rparr>"

definition fixed_performance :: "real list \<Rightarrow> real list \<Rightarrow> externals" where
  \<comment> \<open>\<open>get_performance\<close> yields a fresh array (oldest interval first) of the first
      list of numbers for the example stock's closes and of the second list for any other
      closes\<close>
  "fixed_performance stock_perf index_perf =
     \<lparr>get_performance = (\<lambda>closes interval.
        if closes = [Num 10, Num 10, Num 10]
        then Inr (NdArray (map Num stock_perf) False)
        else Inr (NdArray (map Num index_perf) False)),
      strptime = (\<lambda>text. Inl ValueError)\<rparr>"

text \<open>
  The same filter with index bars of its own (closes of 20), so that the two calls of
  \<open>get_performance\<close> can be told apart.
\<close>

definition example_index_bars :: "bar list" where
  "example_index_bars = [\<lparr>close = Num 20, timestamp = 1\<rparr>, \<lparr>close = Num 20, timestamp = 2\<rparr>,
                         \<lparr>close = Num 20, timestamp = 3\<rparr>]"

definition technique_filter :: levermann_score where
  "technique_filter =
     (example_filter 2 scenario_b_distribution 0)\<lparr>index_bars := Some example_index_bars\<rparr>"

text \<open>
  The example filter (earnings estimate 2) with a last bar whose close price is
  not-a-number.
\<close>

definition nan_close_filter :: levermann_score where
  "nan_close_filter =
     (example_filter 2 scenario_b_distribution 0)
       \<lparr>bars := Some [\<lparr>close = Num 10, timestamp = 1\<rparr>, \<lparr>close = Num 10, timestamp = 2\<rparr>,
                       \<lparr>close = NaN, timestamp = 3\<rparr>]\<rparr>"

text \<open>
  The example filter with a latest weighted rating of 2.5 (ratings 3 and 2, one analyst
  each) and a rating of 2.75 four weeks before (rating 3 from three analysts, rating 2 from
  one): the rating change is \<open>100 * 0.25 / 2.5\<close>, which is 10, also in binary floating
  point.
\<close>

definition rating_change_data :: "string \<Rightarrow> pyobj" where
  "rating_change_data kind =
     (if kind = ''recommendation'' then
        PyDict [(''trends'',
          PyList [PyDict [(''distributionList'', PyList [bucket 3 1, bucket 2 1])],
                  PyDict [(''distributionList'', PyList [bucket 3 1, bucket 2 1])],
                  PyDict [(''distributionList'', PyList [bucket 3 3, bucket 2 1])]])]
      else if kind = ''income'' then PyList []
      else PyNone)"

definition rating_change_filter :: levermann_score where
  "rating_change_filter =
     (example_filter 2 scenario_b_distribution 0)
       \<lparr>stock := \<lparr>get_data = rating_change_data, get_data_attr = example_attr 2\<rparr>\<rparr>"

subsection \<open>The growth comparison in the specification's words\<close>

text \<open>
  The specification compares the earnings estimate with the most recent available annual
  figure. With the five samples listed by increasing quarter offset (0, 4, 8, 12, 16), the
  most recent available one is the first that is not the sentinel \<open>-1\<close>. This definition
  follows the specification, not the source; it is compared with
  \<open>calculate_growing\<close> below.
\<close>

definition specified_growth :: "real \<Rightarrow> real list \<Rightarrow> int option" where
  "specified_growth eps_estimate samples =
     (case find (\<lambda>v. v \<noteq> - 1) samples of
        None \<Rightarrow> None
      | Some most_recent \<Rightarrow>
          Some (if eps_estimate = 0 then 0
                else if 100 * (eps_estimate - most_recent) / eps_estimate > 5 then 1
                else if 100 * (eps_estimate - most_recent) / eps_estimate < - 5 then - 1
                else 0))"

section \<open>Properties\<close>

subsection \<open>The example snapshot, evaluated\<close>

lemma upt_0_5: "[0..<5] = [0, 1, 2, 3, 4]"
  by (simp add: upt_rec)

lemma example_trendsrating: "calculate_trendsrating scenario_b_distribution = Inr 4"
  by (simp add: calculate_trendsrating_def scenario_b_distribution_def bucket_def py_div_def)

lemma empty_trendsrating: "calculate_trendsrating (PyList []) = Inr 0"
  by (simp add: calculate_trendsrating_def py_div_def)

lemma example_distribution:
  "trends_distribution (example_filter eps latest previous) 0 = Inr latest"
  "trends_distribution (example_filter eps latest previous) 2 = Inr scenario_b_distribution"
  by (simp_all add: trends_distribution_def example_filter_def example_data_def)

lemma example_quality: "calculate_quality (example_filter eps latest previous) = Inr 2"
  by (simp add: calculate_quality_def calculate_roe_def calculate_ebit_margin_def
      calculate_shareholders_equity_ratio_def calculate_shareholders_equity_def
      example_filter_def example_attr_def py_div_def)

lemma example_eps_avg: "calculate_eps_avg (example_filter eps latest previous) 5 = Inr (3 / 2)"
  by (simp add: calculate_eps_avg_def upt_0_5 example_filter_def example_attr_def py_div_def)

lemma example_ratios:
  "calculate_price_earnings_ratios (example_filter eps latest previous) =
     (if eps > 0 then Inr (Some [Num (10 / eps), Num (20 / 3)]) else Inr None)"
  by (simp add: calculate_price_earnings_ratios_def example_eps_avg column0_def rows_of_def
      item_last_def)
     (simp add: example_filter_def example_attr_def example_bars_def py_div_def)

lemma example_rating:
  "calculate_rating (example_filter eps latest previous) = Inr (if eps > 0 then 2 else - 1)"
  by (simp add: calculate_rating_def example_ratios)

lemma example_impact:
  "calculate_impact_of_quartly_figures x (example_filter eps latest previous) = Inr (Num (- 1))"
  by (simp add: calculate_impact_of_quartly_figures_def example_filter_def example_data_def)

lemma example_mood:
  "calculate_mood x (example_filter eps scenario_b_distribution previous) = Inr 1"
  by (simp add: calculate_mood_def example_distribution example_trendsrating example_impact)

lemma example_performance:
  "calculate_performance (example_filter eps latest previous) = Inr [Num 0, Num 0]"
  by (simp add: calculate_performance_def column0_def rows_of_def item_last_def item_at_def
      py_div_def example_filter_def example_bars_def)

lemma example_rating_difference:
  "calculate_rating_differences_in_percent (example_filter eps scenario_b_distribution previous)
     = Inr 0"
  by (simp add: calculate_rating_differences_in_percent_def example_distribution
      example_trendsrating py_div_def)

lemma example_momentum:
  "calculate_momentum (example_filter eps scenario_b_distribution previous) = Inr (- 1)"
  by (simp add: calculate_momentum_def example_rating_difference example_performance)

lemma example_compare_empty:
  "compare_index_with_stock_performance no_performance (example_filter eps latest previous)
     = Inr 0"
  by (simp add: compare_index_with_stock_performance_def no_performance_def column0_def
      rows_of_def example_filter_def)

lemma example_technique:
  "calculate_technique no_performance (example_filter eps latest previous) = Inr 0"
  by (simp add: calculate_technique_def example_compare_empty)

lemma example_eps_difference:
  "calculate_eps_difference (example_filter eps latest previous)
     = Inr (if eps = 0 then 0 else 100 * (eps - 1) / eps)"
  by (simp add: calculate_eps_difference_def upt_0_5 example_filter_def example_attr_def
      py_div_def)

lemma example_growing_2:
  "calculate_growing (example_filter 2 latest previous) = Inr 1"
  by (simp add: calculate_growing_def example_eps_difference)

lemma example_growing_0:
  "calculate_growing (example_filter 0 latest previous) = Inr 0"
  by (simp add: calculate_growing_def example_eps_difference)

subsection \<open>The sub-scores depend on the snapshot only\<close>

text \<open>
  No calculator reads the thresholds or the cached composite: two filter objects with the
  same stock, bars and index bars get the same six sub-scores.
\<close>

lemma eps_avg_loop_snapshot:
  "stock e' = stock e \<Longrightarrow> eps_avg_loop e' idxs eps_n eps_counter = eps_avg_loop e idxs eps_n eps_counter"
  by (induction idxs arbitrary: eps_n eps_counter) (simp_all cong: if_cong)

lemma eps_last_loop_snapshot:
  "stock e' = stock e \<Longrightarrow> eps_last_loop e' idxs eps_last = eps_last_loop e idxs eps_last"
  by (induction idxs arbitrary: eps_last) (simp_all cong: if_cong)

lemma sub_scores_snapshot:
  assumes "stock e' = stock e" and "bars e' = bars e" and "index_bars e' = index_bars e"
  shows "calculate_quality e' = calculate_quality e
    \<and> calculate_rating e' = calculate_rating e
    \<and> calculate_mood x e' = calculate_mood x e
    \<and> calculate_momentum e' = calculate_momentum e
    \<and> calculate_technique x e' = calculate_technique x e
    \<and> calculate_growing e' = calculate_growing e"
proof -
  have "calculate_quality e' = calculate_quality e"
    by (simp add: calculate_quality_def calculate_roe_def calculate_ebit_margin_def
        calculate_shareholders_equity_ratio_def calculate_shareholders_equity_def assms
        cong: if_cong)
  moreover have "calculate_rating e' = calculate_rating e"
    by (simp add: calculate_rating_def calculate_price_earnings_ratios_def calculate_eps_avg_def
        eps_avg_loop_snapshot [OF assms(1)] assms cong: if_cong)
  moreover have "calculate_mood x e' = calculate_mood x e"
    by (simp add: calculate_mood_def trends_distribution_def
        calculate_impact_of_quartly_figures_def assms cong: if_cong)
  moreover have "calculate_momentum e' = calculate_momentum e"
    by (simp add: calculate_momentum_def calculate_rating_differences_in_percent_def
        trends_distribution_def calculate_performance_def assms cong: if_cong)
  moreover have "calculate_technique x e' = calculate_technique x e"
    by (simp add: calculate_technique_def compare_index_with_stock_performance_def assms
        cong: if_cong)
  moreover have "calculate_growing e' = calculate_growing e"
    by (simp add: calculate_growing_def calculate_eps_difference_def
        eps_last_loop_snapshot [OF assms(1)] assms cong: if_cong)
  ultimately show ?thesis by blast
qed

subsection \<open>What \<open>analyse\<close> does with the outcome of the sum\<close>

lemma levermann_sum_returns:
  assumes "calculate_quality e = Inr quality" and "calculate_rating e = Inr valuation"
    and "calculate_mood x e = Inr mood" and "calculate_momentum e = Inr momentum"
    and "calculate_technique x e = Inr technique" and "calculate_growing e = Inr growth"
  shows "levermann_sum x e = Inr (quality + valuation + mood + momentum + technique + growth)"
  using assms by (simp add: levermann_sum_def)

lemma analyse_returns:
  assumes "levermann_sum x e = Inr levermann"
  shows "analyse x e =
    (Inr (threshold_decision levermann (buy e) (sell e)), e\<lparr>calc := levermann\<rparr>)"
  using assms by (simp add: analyse_def)

lemma analyse_caught:
  assumes "levermann_sum x e = Inl err" and "caught err"
  shows "analyse x e = (Inr (threshold_decision (calc e) (buy e) (sell e)), e)"
  using assms by (simp add: analyse_def)

lemma analyse_escapes:
  assumes "levermann_sum x e = Inl err" and "\<not> caught err"
  shows "analyse x e = (Inl err, e)"
  using assms by (simp add: analyse_def)

subsection \<open>Aggregation and classification\<close>

text \<open>
  Claim C1. When none of the six sub-score calculators raises, \<open>analyse\<close> stores as
  composite exactly the sum quality + valuation + mood + momentum + technique + growth of
  the values computed from the bound snapshot, and returns BUY if the composite is at least
  the buy threshold, else SELL if it is at most the sell threshold, else HOLD. Both
  boundaries are inclusive: a composite equal to the buy threshold gives BUY, and a
  composite equal to the sell threshold (and below the buy threshold, which is compared
  first) gives SELL.
\<close>

theorem analyse_composite_and_decision:
  assumes "calculate_quality e = Inr quality" and "calculate_rating e = Inr valuation"
    and "calculate_mood x e = Inr mood" and "calculate_momentum e = Inr momentum"
    and "calculate_technique x e = Inr technique" and "calculate_growing e = Inr growth"
    and "composite = quality + valuation + mood + momentum + technique + growth"
  shows "snd (analyse x e) = e\<lparr>calc := composite\<rparr>
    \<and> get_calculation (snd (analyse x e)) = composite
    \<and> fst (analyse x e) =
        Inr (if composite \<ge> buy e then BUY else if composite \<le> sell e then SELL else HOLD)
    \<and> (composite = buy e \<longrightarrow> fst (analyse x e) = Inr BUY)
    \<and> (composite = sell e \<and> composite < buy e \<longrightarrow> fst (analyse x e) = Inr SELL)
    \<and> (sell e < composite \<and> composite < buy e \<longrightarrow> fst (analyse x e) = Inr HOLD)"
proof -
  have "levermann_sum x e = Inr composite"
    using assms by (simp add: levermann_sum_returns)
  then have "analyse x e =
      (Inr (threshold_decision composite (buy e) (sell e)), e\<lparr>calc := composite\<rparr>)"
    by (rule analyse_returns)
  then show ?thesis
    by (simp add: threshold_decision_def get_calculation_def)
qed

theorem analyse_composite_and_decision_witness:
  "calculate_quality (example_filter 2 scenario_b_distribution 0) = Inr 2
   \<and> calculate_rating (example_filter 2 scenario_b_distribution 0) = Inr 2
   \<and> calculate_mood no_performance (example_filter 2 scenario_b_distribution 0) = Inr 1
   \<and> calculate_momentum (example_filter 2 scenario_b_distribution 0) = Inr (- 1)
   \<and> calculate_technique no_performance (example_filter 2 scenario_b_distribution 0) = Inr 0
   \<and> calculate_growing (example_filter 2 scenario_b_distribution 0) = Inr 1
   \<and> get_calculation
        (snd (analyse no_performance (example_filter 2 scenario_b_distribution 0))) = 5
   \<and> fst (analyse no_performance (example_filter 2 scenario_b_distribution 0)) = Inr BUY
   \<and> fst (analyse no_performance
        ((example_filter 2 scenario_b_distribution 0)\<lparr>buy := 5\<rparr>)) = Inr BUY
   \<and> fst (analyse no_performance
        ((example_filter 2 scenario_b_distribution 0)\<lparr>buy := 6, sell := 5\<rparr>)) = Inr SELL
   \<and> fst (analyse no_performance
        ((example_filter 2 scenario_b_distribution 0)\<lparr>buy := 6\<rparr>)) = Inr HOLD"
proof -
  let ?e = "example_filter 2 scenario_b_distribution 0"
  have q: "calculate_quality ?e = Inr 2" by (rule example_quality)
  have v: "calculate_rating ?e = Inr 2" by (simp add: example_rating)
  have m: "calculate_mood no_performance ?e = Inr 1" by (rule example_mood)
  have mo: "calculate_momentum ?e = Inr (- 1)" by (rule example_momentum)
  have t: "calculate_technique no_performance ?e = Inr 0" by (rule example_technique)
  have g: "calculate_growing ?e = Inr 1" by (rule example_growing_2)
  have b: "buy ?e = 3" by (simp add: example_filter_def)
  have c: "(5::int) = 2 + 2 + 1 + (- 1) + 0 + 1" by simp
  note r = analyse_composite_and_decision [OF q v m mo t g c]
  from r have r1: "get_calculation (snd (analyse no_performance ?e)) = 5" by blast
  from r b have r2: "fst (analyse no_performance ?e) = Inr BUY" by simp
  have same: "calculate_quality e' = Inr 2 \<and> calculate_rating e' = Inr 2
      \<and> calculate_mood no_performance e' = Inr 1 \<and> calculate_momentum e' = Inr (- 1)
      \<and> calculate_technique no_performance e' = Inr 0 \<and> calculate_growing e' = Inr 1"
    if "stock e' = stock ?e" and "bars e' = bars ?e" and "index_bars e' = index_bars ?e" for e'
    using sub_scores_snapshot [OF that, where x = no_performance] q v m mo t g by simp
  have s1: "calculate_quality (?e\<lparr>buy := 5\<rparr>) = Inr 2 \<and> calculate_rating (?e\<lparr>buy := 5\<rparr>) = Inr 2
      \<and> calculate_mood no_performance (?e\<lparr>buy := 5\<rparr>) = Inr 1
      \<and> calculate_momentum (?e\<lparr>buy := 5\<rparr>) = Inr (- 1)
      \<and> calculate_technique no_performance (?e\<lparr>buy := 5\<rparr>) = Inr 0
      \<and> calculate_growing (?e\<lparr>buy := 5\<rparr>) = Inr 1"
    by (rule same) simp_all
  have s2: "calculate_quality (?e\<lparr>buy := 6, sell := 5\<rparr>) = Inr 2
      \<and> calculate_rating (?e\<lparr>buy := 6, sell := 5\<rparr>) = Inr 2
      \<and> calculate_mood no_performance (?e\<lparr>buy := 6, sell := 5\<rparr>) = Inr 1
      \<and> calculate_momentum (?e\<lparr>buy := 6, sell := 5\<rparr>) = Inr (- 1)
      \<and> calculate_technique no_performance (?e\<lparr>buy := 6, sell := 5\<rparr>) = Inr 0
      \<and> calculate_growing (?e\<lparr>buy := 6, sell := 5\<rparr>) = Inr 1"
    by (rule same) simp_all
  have s3: "calculate_quality (?e\<lparr>buy := 6\<rparr>) = Inr 2 \<and> calculate_rating (?e\<lparr>buy := 6\<rparr>) = Inr 2
      \<and> calculate_mood no_performance (?e\<lparr>buy := 6\<rparr>) = Inr 1
      \<and> calculate_momentum (?e\<lparr>buy := 6\<rparr>) = Inr (- 1)
      \<and> calculate_technique no_performance (?e\<lparr>buy := 6\<rparr>) = Inr 0
      \<and> calculate_growing (?e\<lparr>buy := 6\<rparr>) = Inr 1"
    by (rule same) simp_all
  have t3: "sell (?e\<lparr>buy := 6\<rparr>) = - 2" by (simp add: example_filter_def)
  from s1 have "fst (analyse no_performance (?e\<lparr>buy := 5\<rparr>)) =
      Inr (if 5 \<ge> buy (?e\<lparr>buy := 5\<rparr>) then BUY
           else if 5 \<le> sell (?e\<lparr>buy := 5\<rparr>) then SELL else HOLD)"
    using analyse_composite_and_decision [OF _ _ _ _ _ _ c, of "?e\<lparr>buy := 5\<rparr>" no_performance]
    by blast
  then have r3: "fst (analyse no_performance (?e\<lparr>buy := 5\<rparr>)) = Inr BUY" by simp
  from s2 have "fst (analyse no_performance (?e\<lparr>buy := 6, sell := 5\<rparr>)) =
      Inr (if 5 \<ge> buy (?e\<lparr>buy := 6, sell := 5\<rparr>) then BUY
           else if 5 \<le> sell (?e\<lparr>buy := 6, sell := 5\<rparr>) then SELL else HOLD)"
    using analyse_composite_and_decision
      [OF _ _ _ _ _ _ c, of "?e\<lparr>buy := 6, sell := 5\<rparr>" no_performance]
    by blast
  then have r4: "fst (analyse no_performance (?e\<lparr>buy := 6, sell := 5\<rparr>)) = Inr SELL"
    by simp
  from s3 have "fst (analyse no_performance (?e\<lparr>buy := 6\<rparr>)) =
      Inr (if 5 \<ge> buy (?e\<lparr>buy := 6\<rparr>) then BUY
           else if 5 \<le> sell (?e\<lparr>buy := 6\<rparr>) then SELL else HOLD)"
    using analyse_composite_and_decision [OF _ _ _ _ _ _ c, of "?e\<lparr>buy := 6\<rparr>" no_performance]
    by blast
  with t3 have r5: "fst (analyse no_performance (?e\<lparr>buy := 6\<rparr>)) = Inr HOLD" by simp
  from q v m mo t g r1 r2 r3 r4 r5 show ?thesis by blast
qed

subsection \<open>Failure of a calculator\<close>

text \<open>
  The sum raises \<open>err\<close> exactly when one calculator raises \<open>err\<close> and all the
  calculators before it, in the order quality, valuation, mood, momentum, technique,
  growth, have returned.
\<close>

lemma levermann_sum_raises_iff:
  "levermann_sum x e = Inl err \<longleftrightarrow>
     calculate_quality e = Inl err
   \<or> (\<exists>q. calculate_quality e = Inr q \<and>
        (calculate_rating e = Inl err
       \<or> (\<exists>v. calculate_rating e = Inr v \<and>
        (calculate_mood x e = Inl err
       \<or> (\<exists>m. calculate_mood x e = Inr m \<and>
        (calculate_momentum e = Inl err
       \<or> (\<exists>mo. calculate_momentum e = Inr mo \<and>
        (calculate_technique x e = Inl err
       \<or> (\<exists>t. calculate_technique x e = Inr t \<and> calculate_growing e = Inl err)))))))))"
proof -
  have b: "\<And>(m :: error + int) (f :: int \<Rightarrow> error + int).
      bindE m f = Inl err \<longleftrightarrow> m = Inl err \<or> (\<exists>v. m = Inr v \<and> f v = Inl err)"
    subgoal for m f by (cases m) simp_all
    done
  show ?thesis
    unfolding levermann_sum_def b by simp
qed

lemma malformed_mood:
  "calculate_mood x (example_filter eps PyNone previous) = Inl TypeError"
  by (simp add: calculate_mood_def example_distribution calculate_trendsrating_def)

lemma malformed_sum:
  "levermann_sum x (example_filter 2 PyNone previous) = Inl TypeError"
  by (simp add: levermann_sum_def example_quality example_rating malformed_mood)

text \<open>
  Claim C2. When a sub-score calculator raises a data-access failure (KeyError, IndexError
  or TypeError), \<open>analyse\<close> leaves the cached composite as it was and returns the
  decision that the thresholds give for that previous composite. In particular, with a
  previous composite of \<open>-5\<close> and a sell threshold of \<open>-2\<close> the decision is SELL
  (the buy threshold, compared first, lies above \<open>-5\<close>).
\<close>

theorem analyse_failure_keeps_composite:
  assumes "levermann_sum x e = Inl err"
    and "err = KeyError \<or> err = IndexError \<or> err = TypeError"
  shows "snd (analyse x e) = e
    \<and> get_calculation (snd (analyse x e)) = calc e
    \<and> fst (analyse x e) =
        Inr (if calc e \<ge> buy e then BUY else if calc e \<le> sell e then SELL else HOLD)
    \<and> (calc e = - 5 \<and> sell e = - 2 \<and> - 5 < buy e \<longrightarrow> fst (analyse x e) = Inr SELL)"
proof -
  from assms(2) have "caught err" by (simp add: caught_def)
  with assms(1) have "analyse x e = (Inr (threshold_decision (calc e) (buy e) (sell e)), e)"
    by (rule analyse_caught)
  then show ?thesis
    by (simp add: threshold_decision_def get_calculation_def)
qed

theorem analyse_failure_keeps_composite_witness:
  "levermann_sum no_performance (example_filter 2 PyNone (- 5)) = Inl TypeError
   \<and> calc (example_filter 2 PyNone (- 5)) = - 5
   \<and> sell (example_filter 2 PyNone (- 5)) = - 2
   \<and> get_calculation (snd (analyse no_performance (example_filter 2 PyNone (- 5)))) = - 5
   \<and> fst (analyse no_performance (example_filter 2 PyNone (- 5))) = Inr SELL"
proof -
  let ?e = "example_filter 2 PyNone (- 5)"
  have s: "levermann_sum no_performance ?e = Inl TypeError" by (rule malformed_sum)
  have k: "TypeError = KeyError \<or> TypeError = IndexError \<or> TypeError = TypeError" by simp
  have f: "calc ?e = - 5" "sell ?e = - 2" "buy ?e = 3" by (simp_all add: example_filter_def)
  note r = analyse_failure_keeps_composite [OF s k]
  from r f have "get_calculation (snd (analyse no_performance ?e)) = - 5"
    by (simp add: get_calculation_def)
  moreover from r f have "fst (analyse no_performance ?e) = Inr SELL" by simp
  ultimately show ?thesis using s f by blast
qed

subsection \<open>An exception that leaves \<open>analyse\<close>\<close>

lemma unguarded_momentum:
  "calculate_momentum (example_filter eps (PyList []) previous) = Inl ZeroDivisionError"
  by (simp add: calculate_momentum_def calculate_rating_differences_in_percent_def
      example_distribution empty_trendsrating example_trendsrating py_div_def)

lemma unguarded_mood:
  "calculate_mood x (example_filter eps (PyList []) previous) = Inr (- 1)"
  by (simp add: calculate_mood_def example_distribution empty_trendsrating example_impact)

text \<open>
  Claim C3. The claim is that \<open>analyse\<close> never lets an exception reach its caller and
  that every division by a possibly zero denominator, the weighted trend rating included,
  yields a neutral value. The source guards the other divisions (by a comparison before
  dividing, or by catching ZeroDivisionError), but divides by the latest trend rating
  unguarded, and \<open>analyse\<close> catches only KeyError, IndexError and TypeError. On the
  example snapshot with an empty latest distribution list, the trend rating is 0, quality,
  valuation and mood return, the rating change raises ZeroDivisionError, and
  \<open>analyse\<close> raises it to the caller.
\<close>

theorem analyse_raises_on_zero_rating:
  "calculate_trendsrating (PyList []) = Inr 0
   \<and> calculate_quality (example_filter 2 (PyList []) 0) = Inr 2
   \<and> calculate_rating (example_filter 2 (PyList []) 0) = Inr 2
   \<and> calculate_mood no_performance (example_filter 2 (PyList []) 0) = Inr (- 1)
   \<and> calculate_momentum (example_filter 2 (PyList []) 0) = Inl ZeroDivisionError
   \<and> fst (analyse no_performance (example_filter 2 (PyList []) 0)) = Inl ZeroDivisionError"
  by (simp add: empty_trendsrating example_quality example_rating unguarded_mood
      unguarded_momentum analyse_def levermann_sum_def caught_def)

subsection \<open>Thresholds\<close>

text \<open>
  Claim C9. For a fixed composite and integer thresholds with the buy threshold above the
  sell threshold, raising the buy threshold changes the decision, if at all, from BUY to
  HOLD (never to SELL); lowering the sell threshold changes it, if at all, from SELL to
  HOLD.
\<close>

theorem threshold_monotonicity:
  "(s < b \<and> b \<le> b' \<longrightarrow>
      threshold_decision c b' s = threshold_decision c b s
      \<or> (threshold_decision c b s = BUY \<and> threshold_decision c b' s = HOLD))
   \<and> (s' \<le> s \<longrightarrow>
      threshold_decision c b s' = threshold_decision c b s
      \<or> (threshold_decision c b s = SELL \<and> threshold_decision c b s' = HOLD))"
  by (simp add: threshold_decision_def)

theorem threshold_monotonicity_witness:
  "(- 2 :: int) < 3 \<and> (3::int) \<le> 4
   \<and> threshold_decision 3 3 (- 2) = BUY \<and> threshold_decision 3 4 (- 2) = HOLD
   \<and> (- 3 :: int) \<le> - 2
   \<and> threshold_decision (- 2) 3 (- 2) = SELL \<and> threshold_decision (- 2) 3 (- 3) = HOLD"
  using threshold_monotonicity [of "- 2" 3 4 3 "- 3"]
    threshold_monotonicity [of "- 2" 3 3 "- 2" "- 3"]
  by (simp add: threshold_decision_def)

subsection \<open>Valuation\<close>

lemma bindE_Inr_iff: "bindE m f = Inr v \<longleftrightarrow> (\<exists>a. m = Inr a \<and> f a = Inr v)"
  by (cases m) simp_all

lemma first_branch_of_number: "Num a > Num 0 \<or> Num a < Num 12"
  by (simp add: not_less) linarith

lemma rating_loop_numbers: "rating_loop [Num a, Num b] 0 = 2"
  using first_branch_of_number [of a] first_branch_of_number [of b] by simp

lemma rating_loop_not_a_number: "rating_loop [NaN, NaN] 0 = 0"
  by simp

lemma price_earnings_ratios_read:
  assumes "get_data_attr (stock e) ''recommendation'' ''eps'' False 0 = Inr eps_estimate"
    and "column0 (bars e) = Inr close_prices" and "close_prices \<noteq> []"
    and "calculate_eps_avg e 5 = Inr eps_avg"
  shows "calculate_price_earnings_ratios e =
    Inr (if eps_estimate > 0 \<and> eps_avg > 0
         then Some (case last close_prices of
                      Num last_close \<Rightarrow> [Num (last_close / eps_estimate), Num (last_close / eps_avg)]
                    | NaN \<Rightarrow> [NaN, NaN])
         else None)"
  using assms
  by (cases "last close_prices") (auto simp add: calculate_price_earnings_ratios_def item_last_def)

lemma price_earnings_ratios_returns:
  assumes "calculate_price_earnings_ratios e = Inr pair"
  shows "\<exists>eps_estimate close_prices eps_avg.
    get_data_attr (stock e) ''recommendation'' ''eps'' False 0 = Inr eps_estimate
    \<and> column0 (bars e) = Inr close_prices \<and> close_prices \<noteq> []
    \<and> calculate_eps_avg e 5 = Inr eps_avg"
  using assms
  by (auto simp add: calculate_price_earnings_ratios_def bindE_Inr_iff item_last_def
      split: if_splits)

lemma example_reads:
  "get_data_attr (stock (example_filter eps latest previous)) ''recommendation'' ''eps'' False 0
     = Inr eps"
  "column0 (bars (example_filter eps latest previous)) = Inr [Num 10, Num 10, Num 10]"
  by (simp_all add: example_filter_def example_attr_def example_bars_def column0_def rows_of_def)

lemma nan_close_reads:
  "get_data_attr (stock nan_close_filter) ''recommendation'' ''eps'' False 0 = Inr 2"
  "column0 (bars nan_close_filter) = Inr [Num 10, Num 10, NaN]"
  "calculate_eps_avg nan_close_filter 5 = Inr (3 / 2)"
  by (simp_all add: nan_close_filter_def example_filter_def example_attr_def column0_def
      rows_of_def calculate_eps_avg_def upt_0_5 py_div_def)

lemma rating_returns_pair:
  assumes "calculate_rating e = Inr r"
  obtains pair where "calculate_price_earnings_ratios e = Inr pair"
    and "r = (case pair of None \<Rightarrow> - 1 | Some ratios \<Rightarrow> rating_loop ratios 0)"
proof -
  from assms obtain pair where p: "calculate_price_earnings_ratios e = Inr pair"
    and v: "(case pair of None \<Rightarrow> Inr (- 1) | Some ratios \<Rightarrow> Inr (rating_loop ratios 0))
             = (Inr r :: error + int)"
    unfolding calculate_rating_def bindE_Inr_iff by blast
  from v have "r = (case pair of None \<Rightarrow> - 1 | Some ratios \<Rightarrow> rating_loop ratios 0)"
    by (cases pair) simp_all
  with p that show thesis by blast
qed

lemma rating_of_read:
  assumes r: "get_data_attr (stock e) ''recommendation'' ''eps'' False 0 = Inr eps_estimate"
      "column0 (bars e) = Inr close_prices" "close_prices \<noteq> []"
      "calculate_eps_avg e 5 = Inr eps_avg"
  shows "calculate_rating e =
    Inr (if eps_estimate > 0 \<and> eps_avg > 0
         then (case last close_prices of Num last_close \<Rightarrow> 2 | NaN \<Rightarrow> 0)
         else - 1)"
proof (cases "last close_prices")
  case (Num last_close)
  then show ?thesis
    by (simp add: calculate_rating_def price_earnings_ratios_read [OF r] rating_loop_numbers
        del: rating_loop.simps)
next
  case NaN
  then show ?thesis
    by (simp add: calculate_rating_def price_earnings_ratios_read [OF r] del: rating_loop.simps)
       (simp add: rating_loop_not_a_number del: rating_loop.simps)
qed

text \<open>
  Claim C10, as the code has it. The valuation calculator returns \<open>-1\<close> exactly when
  the pair of price/earnings ratios is unavailable, which, the data being readable, is
  exactly when the earnings estimate or the five-year average of the diluted earnings per
  share is not positive. Whenever both ratios are available and the last close price is a
  number (not not-a-number), each ratio takes the first branch of the comparison (a number
  is positive or below 12) and the result is exactly \<open>2\<close>; no snapshot whose last
  close price is a number produces any other value than \<open>-1\<close> and \<open>2\<close>.
\<close>

theorem calculate_rating_values:
  "(calculate_rating e = Inr (- 1) \<longleftrightarrow> calculate_price_earnings_ratios e = Inr None)
   \<and> (get_data_attr (stock e) ''recommendation'' ''eps'' False 0 = Inr eps_estimate
        \<and> column0 (bars e) = Inr close_prices \<and> close_prices \<noteq> []
        \<and> calculate_eps_avg e 5 = Inr eps_avg \<longrightarrow>
        (calculate_price_earnings_ratios e = Inr None \<longleftrightarrow> eps_estimate \<le> 0 \<or> eps_avg \<le> 0)
        \<and> (last close_prices \<noteq> NaN \<longrightarrow>
             calculate_rating e = Inr (if eps_estimate \<le> 0 \<or> eps_avg \<le> 0 then - 1 else 2)))
   \<and> (\<forall>ratios closes. calculate_price_earnings_ratios e = Inr (Some ratios)
        \<and> column0 (bars e) = Inr closes \<and> last closes \<noteq> NaN \<longrightarrow>
        length ratios = 2 \<and> (\<forall>ratio \<in> set ratios. ratio > Num 0 \<or> ratio < Num 12)
        \<and> calculate_rating e = Inr 2)
   \<and> (\<forall>r closes. calculate_rating e = Inr r \<and> column0 (bars e) = Inr closes
        \<and> last closes \<noteq> NaN \<longrightarrow> r = - 1 \<or> r = 2)"
proof -
  have unavailable:
    "calculate_rating e = Inr (- 1) \<longleftrightarrow> calculate_price_earnings_ratios e = Inr None"
  proof
    assume v: "calculate_rating e = Inr (- 1)"
    then obtain pair where p: "calculate_price_earnings_ratios e = Inr pair"
      by (rule rating_returns_pair)
    from price_earnings_ratios_returns [OF p] obtain est closes avg
      where r: "get_data_attr (stock e) ''recommendation'' ''eps'' False 0 = Inr est"
        "column0 (bars e) = Inr closes" "closes \<noteq> []" "calculate_eps_avg e 5 = Inr avg"
      by blast
    from v rating_of_read [OF r] have "\<not> (est > 0 \<and> avg > 0)"
      by (cases "last closes") (simp_all split: if_splits)
    with price_earnings_ratios_read [OF r]
    show "calculate_price_earnings_ratios e = Inr None" by simp
  next
    assume "calculate_price_earnings_ratios e = Inr None"
    then show "calculate_rating e = Inr (- 1)" by (simp add: calculate_rating_def)
  qed
  have read: "(calculate_price_earnings_ratios e = Inr None \<longleftrightarrow> est \<le> 0 \<or> avg \<le> 0)
        \<and> (last closes \<noteq> NaN \<longrightarrow>
             calculate_rating e = Inr (if est \<le> 0 \<or> avg \<le> 0 then - 1 else 2))"
    if r: "get_data_attr (stock e) ''recommendation'' ''eps'' False 0 = Inr est"
      "column0 (bars e) = Inr closes" "closes \<noteq> []" "calculate_eps_avg e 5 = Inr avg"
    for est closes avg
  proof -
    have "calculate_price_earnings_ratios e = Inr None \<longleftrightarrow> est \<le> 0 \<or> avg \<le> 0"
      using price_earnings_ratios_read [OF r] by (simp add: not_less)
    moreover have "calculate_rating e = Inr (if est \<le> 0 \<or> avg \<le> 0 then - 1 else 2)"
      if "last closes \<noteq> NaN"
      using that rating_of_read [OF r] by (cases "last closes") (simp_all add: not_less)
    ultimately show ?thesis by blast
  qed
  have available: "length ratios = 2 \<and> (\<forall>ratio \<in> set ratios. ratio > Num 0 \<or> ratio < Num 12)
        \<and> calculate_rating e = Inr 2"
    if p: "calculate_price_earnings_ratios e = Inr (Some ratios)"
      and c: "column0 (bars e) = Inr closes" and n: "last closes \<noteq> NaN"
    for ratios closes
  proof -
    from price_earnings_ratios_returns [OF p] c obtain est avg
      where r: "get_data_attr (stock e) ''recommendation'' ''eps'' False 0 = Inr est"
        "column0 (bars e) = Inr closes" "closes \<noteq> []" "calculate_eps_avg e 5 = Inr avg"
      by auto
    from n obtain last_close where l: "last closes = Num last_close"
      by (cases "last closes") simp_all
    from p price_earnings_ratios_read [OF r] l
    have available: "est > 0 \<and> avg > 0"
      and pair: "ratios = [Num (last_close / est), Num (last_close / avg)]"
      by (simp_all split: if_splits)
    from pair have "length ratios = 2" by simp
    moreover from pair have "\<forall>ratio \<in> set ratios. ratio > Num 0 \<or> ratio < Num 12"
      using first_branch_of_number by (simp del: less_pyfloat.simps)
    moreover from available l rating_of_read [OF r] have "calculate_rating e = Inr 2"
      by simp
    ultimately show ?thesis by blast
  qed
  have two_values: "r = - 1 \<or> r = 2"
    if v: "calculate_rating e = Inr r" and c: "column0 (bars e) = Inr closes"
      and n: "last closes \<noteq> NaN"
    for r closes
  proof -
    from v obtain pair where p: "calculate_price_earnings_ratios e = Inr pair"
      by (rule rating_returns_pair)
    from price_earnings_ratios_returns [OF p] c obtain est avg
      where r: "get_data_attr (stock e) ''recommendation'' ''eps'' False 0 = Inr est"
        "column0 (bars e) = Inr closes" "closes \<noteq> []" "calculate_eps_avg e 5 = Inr avg"
      by auto
    from n obtain last_close where l: "last closes = Num last_close"
      by (cases "last closes") simp_all
    from v l rating_of_read [OF r] show ?thesis by (simp split: if_splits)
  qed
  have c2: "get_data_attr (stock e) ''recommendation'' ''eps'' False 0 = Inr eps_estimate
        \<and> column0 (bars e) = Inr close_prices \<and> close_prices \<noteq> []
        \<and> calculate_eps_avg e 5 = Inr eps_avg \<longrightarrow>
        (calculate_price_earnings_ratios e = Inr None \<longleftrightarrow> eps_estimate \<le> 0 \<or> eps_avg \<le> 0)
        \<and> (last close_prices \<noteq> NaN \<longrightarrow>
             calculate_rating e = Inr (if eps_estimate \<le> 0 \<or> eps_avg \<le> 0 then - 1 else 2))"
    using read [of eps_estimate close_prices eps_avg] by blast
  have c3: "\<forall>ratios closes. calculate_price_earnings_ratios e = Inr (Some ratios)
        \<and> column0 (bars e) = Inr closes \<and> last closes \<noteq> NaN \<longrightarrow>
        length ratios = 2 \<and> (\<forall>ratio \<in> set ratios. ratio > Num 0 \<or> ratio < Num 12)
        \<and> calculate_rating e = Inr 2"
    using available by blast
  have c4: "\<forall>r closes. calculate_rating e = Inr r \<and> column0 (bars e) = Inr closes
        \<and> last closes \<noteq> NaN \<longrightarrow> r = - 1 \<or> r = 2"
    using two_values by blast
  from unavailable c2 c3 c4 show ?thesis by (intro conjI)
qed

theorem calculate_rating_values_witness:
  "calculate_price_earnings_ratios (example_filter 2 scenario_b_distribution 0)
       = Inr (Some [Num 5, Num (20 / 3)])
   \<and> column0 (bars (example_filter 2 scenario_b_distribution 0)) = Inr [Num 10, Num 10, Num 10]
   \<and> last [Num 10, Num 10, Num 10] \<noteq> NaN
   \<and> calculate_rating (example_filter 2 scenario_b_distribution 0) = Inr 2
   \<and> get_data_attr (stock (example_filter 0 scenario_b_distribution 0))
        ''recommendation'' ''eps'' False 0 = Inr 0
   \<and> column0 (bars (example_filter 0 scenario_b_distribution 0)) = Inr [Num 10, Num 10, Num 10]
   \<and> calculate_eps_avg (example_filter 0 scenario_b_distribution 0) 5 = Inr (3 / 2)
   \<and> calculate_price_earnings_ratios (example_filter 0 scenario_b_distribution 0) = Inr None
   \<and> calculate_rating (example_filter 0 scenario_b_distribution 0) = Inr (- 1)"
proof -
  let ?e = "example_filter 2 scenario_b_distribution 0"
  let ?z = "example_filter 0 scenario_b_distribution 0"
  have a: "calculate_price_earnings_ratios ?e = Inr (Some [Num 5, Num (20 / 3)])"
    by (simp add: example_ratios)
  have c: "column0 (bars ?e) = Inr [Num 10, Num 10, Num 10]" by (rule example_reads)
  have n: "last [Num 10, Num 10, Num 10] \<noteq> NaN" by simp
  have r: "get_data_attr (stock ?z) ''recommendation'' ''eps'' False 0 = Inr 0"
    "column0 (bars ?z) = Inr [Num 10, Num 10, Num 10]"
    by (rule example_reads)+
  have avg: "calculate_eps_avg ?z 5 = Inr (3 / 2)" by (rule example_eps_avg)
  from a c n calculate_rating_values [of ?e] have "calculate_rating ?e = Inr 2" by blast
  moreover from r avg n calculate_rating_values [of ?z 0 "[Num 10, Num 10, Num 10]" "3 / 2"]
  have "calculate_price_earnings_ratios ?z = Inr None \<and> calculate_rating ?z = Inr (- 1)"
    by simp
  ultimately show ?thesis using a c n r avg by blast
qed

text \<open>
  Claim C10, as stated, says that no input makes the valuation calculator return anything
  but \<open>-1\<close> or \<open>2\<close>. On the example snapshot with a last close price that is
  not-a-number, the estimate (2) and the average (1.5) are positive, both ratios are
  not-a-number, neither branch of the comparison is taken for either, and the calculator
  returns 0.
\<close>

theorem calculate_rating_counterexample:
  "get_data_attr (stock nan_close_filter) ''recommendation'' ''eps'' False 0 = Inr 2
   \<and> calculate_eps_avg nan_close_filter 5 = Inr (3 / 2)
   \<and> column0 (bars nan_close_filter) = Inr [Num 10, Num 10, NaN]
   \<and> calculate_price_earnings_ratios nan_close_filter = Inr (Some [NaN, NaN])
   \<and> calculate_rating nan_close_filter = Inr 0
   \<and> calculate_rating nan_close_filter \<noteq> Inr (- 1)
   \<and> calculate_rating nan_close_filter \<noteq> Inr 2"
proof -
  have "calculate_price_earnings_ratios nan_close_filter = Inr (Some [NaN, NaN])"
    using price_earnings_ratios_read [OF nan_close_reads(1,2) _ nan_close_reads(3)] by simp
  then show ?thesis
    by (simp add: nan_close_reads calculate_rating_def)
qed

text \<open>
  Claim C4, as the code has it. When the earnings estimate or the five-year average of the
  diluted earnings per share is not positive (and the data are readable), the valuation
  calculator returns the sentinel \<open>-1\<close>, and this \<open>-1\<close> is the valuation term of the
  sum: the composite is quality + (-1) + mood + momentum + technique + growth.
\<close>

theorem unavailable_valuation_enters_sum:
  assumes "get_data_attr (stock e) ''recommendation'' ''eps'' False 0 = Inr eps_estimate"
    and "column0 (bars e) = Inr close_prices" and "close_prices \<noteq> []"
    and "calculate_eps_avg e 5 = Inr eps_avg"
    and "eps_estimate \<le> 0 \<or> eps_avg \<le> 0"
    and "calculate_quality e = Inr quality"
    and "calculate_mood x e = Inr mood" and "calculate_momentum e = Inr momentum"
    and "calculate_technique x e = Inr technique" and "calculate_growing e = Inr growth"
  shows "calculate_rating e = Inr (- 1)
    \<and> snd (analyse x e) = e\<lparr>calc := quality + (- 1) + mood + momentum + technique + growth\<rparr>
    \<and> get_calculation (snd (analyse x e))
        = quality + (- 1) + mood + momentum + technique + growth"
proof -
  have v: "calculate_rating e = Inr (- 1)"
    using assms(5) by (auto simp add: calculate_rating_def price_earnings_ratios_read [OF assms(1-4)])
  have "levermann_sum x e = Inr (quality + (- 1) + mood + momentum + technique + growth)"
    using assms(6-10) v by (rule_tac levermann_sum_returns)
  then have "analyse x e =
      (Inr (threshold_decision (quality + (- 1) + mood + momentum + technique + growth)
         (buy e) (sell e)),
       e\<lparr>calc := quality + (- 1) + mood + momentum + technique + growth\<rparr>)"
    by (rule analyse_returns)
  with v show ?thesis by (simp add: get_calculation_def)
qed

theorem unavailable_valuation_enters_sum_witness:
  "get_data_attr (stock (example_filter 0 scenario_b_distribution 0))
      ''recommendation'' ''eps'' False 0 = Inr 0
   \<and> calculate_rating (example_filter 0 scenario_b_distribution 0) = Inr (- 1)
   \<and> get_calculation (snd (analyse no_performance (example_filter 0 scenario_b_distribution 0)))
       = 2 + (- 1) + 1 + (- 1) + 0 + 0"
proof -
  let ?z = "example_filter 0 scenario_b_distribution 0"
  have r: "get_data_attr (stock ?z) ''recommendation'' ''eps'' False 0 = Inr 0"
    by (rule example_reads)
  have c: "column0 (bars ?z) = Inr [Num 10, Num 10, Num 10]" by (rule example_reads)
  have n: "[Num 10, Num 10, Num 10] \<noteq> []" by simp
  have a: "calculate_eps_avg ?z 5 = Inr (3 / 2)" by (rule example_eps_avg)
  have u: "(0::real) \<le> 0 \<or> (3 / 2 :: real) \<le> 0" by simp
  have q: "calculate_quality ?z = Inr 2" by (rule example_quality)
  have m: "calculate_mood no_performance ?z = Inr 1" by (rule example_mood)
  have mo: "calculate_momentum ?z = Inr (- 1)" by (rule example_momentum)
  have t: "calculate_technique no_performance ?z = Inr 0" by (rule example_technique)
  have g: "calculate_growing ?z = Inr 0" by (rule example_growing_0)
  from unavailable_valuation_enters_sum [OF r c n a u q m mo t g] r show ?thesis by blast
qed

text \<open>
  Claim C4, as stated, says that the unavailable valuation enters the sum as 0. On the
  example snapshot with an earnings estimate of 0 the six sub-scores are 2, -1, 1, -1, 0
  and 0; the composite is 1, not the 2 that a zero valuation term would give.
\<close>

theorem unavailable_valuation_counterexample:
  "get_data_attr (stock (example_filter 0 scenario_b_distribution 0))
      ''recommendation'' ''eps'' False 0 = Inr 0
   \<and> calculate_quality (example_filter 0 scenario_b_distribution 0) = Inr 2
   \<and> calculate_rating (example_filter 0 scenario_b_distribution 0) = Inr (- 1)
   \<and> calculate_mood no_performance (example_filter 0 scenario_b_distribution 0) = Inr 1
   \<and> calculate_momentum (example_filter 0 scenario_b_distribution 0) = Inr (- 1)
   \<and> calculate_technique no_performance (example_filter 0 scenario_b_distribution 0) = Inr 0
   \<and> calculate_growing (example_filter 0 scenario_b_distribution 0) = Inr 0
   \<and> get_calculation (snd (analyse no_performance (example_filter 0 scenario_b_distribution 0)))
       = 1
   \<and> get_calculation (snd (analyse no_performance (example_filter 0 scenario_b_distribution 0)))
       \<noteq> 2 + 0 + 1 + (- 1) + 0 + 0"
  by (simp add: example_reads example_quality example_rating example_mood example_momentum
      example_technique example_growing_0 analyse_def levermann_sum_def get_calculation_def)

subsection \<open>Technique\<close>

text \<open>
  With a stock sequence at least as long as the sequence of index items, the loop returns
  the signed sum of the comparisons: \<open>+1\<close> where the index item is greater than the
  stock item of the same position, \<open>-1\<close> elsewhere.
\<close>

lemma compare_loop_sum:
  assumes "length index_items \<le> length stock_perf"
  shows "compare_loop index_items stock_perf idx perf_measure =
    Inr (perf_measure +
         (\<Sum>i = idx..<length index_items. if index_items ! i > stock_perf ! i then 1 else - 1))"
  using assms
proof (induction index_items stock_perf idx perf_measure rule: compare_loop.induct)
  case (1 index_items stock_perf idx perf_measure)
  show ?case
  proof (cases "idx < length index_items")
    case False
    then show ?thesis by (simp add: compare_loop.simps [of index_items stock_perf idx])
  next
    case True
    with "1.prems" have in_range: "idx < length stock_perf" by simp
    have split: "{idx..<length index_items} = insert idx {Suc idx..<length index_items}"
      using True by auto
    show ?thesis
    proof (cases "index_items ! idx > stock_perf ! idx")
      case True
      with "1.IH"(1) [OF \<open>idx < length index_items\<close>, of "stock_perf ! idx"] "1.prems"
        \<open>idx < length index_items\<close> in_range
      show ?thesis
        by (subst compare_loop.simps) (simp add: item_at_def split)
    next
      case False
      with "1.IH"(2) [OF \<open>idx < length index_items\<close>, of "stock_perf ! idx"] "1.prems"
        \<open>idx < length index_items\<close> in_range
      show ?thesis
        by (subst compare_loop.simps) (simp add: item_at_def split)
    qed
  qed
qed

lemma elements_reversed: "elements (reversed p) = rev (elements p)"
  by (cases p) simp_all

lemma has_size_reversed: "has_size (reversed p) = has_size p"
  by (cases p) simp_all

lemma compare_unfolded:
  assumes "column0 (bars e) = Inr close_prices"
    and "get_performance x close_prices 30 = Inr stock_result"
    and "column0 (index_bars e) = Inr index_closes"
    and "get_performance x index_closes 30 = Inr index_result"
  shows "compare_index_with_stock_performance x e =
    (if \<not> has_size stock_result \<or> \<not> has_size index_result
        \<or> elements stock_result = [] \<or> elements index_result = []
     then Inr 0
     else compare_loop (nditer (reversed index_result)) (rev (elements stock_result)) 0 0)"
  using assms
  by (simp add: compare_index_with_stock_performance_def elements_reversed has_size_reversed)

text \<open>
  What the loop pairs. When \<open>get_performance\<close> hands back two fresh arrays, the iterator
  over the reversed index view visits the index buffer front to back, while the subscript
  into the reversed stock view counts from the back of the stock buffer: item \<open>i\<close> of the
  index array is compared with item \<open>n - 1 - i\<close> of the stock array of \<open>n\<close>
  items.
\<close>

lemma compare_pairs_front_with_back:
  assumes "column0 (bars e) = Inr close_prices"
    and "get_performance x close_prices 30 = Inr (NdArray stock_buffer False)"
    and "column0 (index_bars e) = Inr index_closes"
    and "get_performance x index_closes 30 = Inr (NdArray index_buffer False)"
    and "index_buffer \<noteq> []" and "length index_buffer \<le> length stock_buffer"
  shows "compare_index_with_stock_performance x e =
    Inr (\<Sum>i = 0..<length index_buffer.
           if index_buffer ! i > stock_buffer ! (length stock_buffer - 1 - i) then 1 else - 1)"
proof -
  from assms(5,6) have "stock_buffer \<noteq> []" by auto
  with assms(5) have "compare_index_with_stock_performance x e =
      compare_loop index_buffer (rev stock_buffer) 0 0"
    by (simp add: compare_unfolded [OF assms(1-4)])
  also have "\<dots> = Inr (0 + (\<Sum>i = 0..<length index_buffer.
      if index_buffer ! i > rev stock_buffer ! i then 1 else - 1))"
    using assms(6) by (intro compare_loop_sum) simp
  also have "(\<Sum>i = 0..<length index_buffer.
      if index_buffer ! i > rev stock_buffer ! i then 1 else - 1) =
    (\<Sum>i = 0..<length index_buffer.
      if index_buffer ! i > stock_buffer ! (length stock_buffer - 1 - i) then 1 else (- 1 :: int))"
    using assms(6) by (intro sum.cong refl) (simp add: rev_nth)
  finally show ?thesis by simp
qed

lemma technique_filter_reads:
  "column0 (bars technique_filter) = Inr [Num 10, Num 10, Num 10]"
  "column0 (index_bars technique_filter) = Inr [Num 20, Num 20, Num 20]"
  by (simp_all add: technique_filter_def example_filter_def example_bars_def
      example_index_bars_def column0_def rows_of_def)

lemma fixed_performance_reads:
  "get_performance (fixed_performance stock_perf index_perf) [Num 10, Num 10, Num 10] 30
     = Inr (NdArray (map Num stock_perf) False)"
  "get_performance (fixed_performance stock_perf index_perf) [Num 20, Num 20, Num 20] 30
     = Inr (NdArray (map Num index_perf) False)"
  by (simp_all add: fixed_performance_def)

lemma compare_loop_3:
  "compare_loop [a, b, c] [a', b', c'] 0 0 =
     Inr ((if a > a' then 1 else - 1) + (if b > b' then 1 else - 1)
          + (if c > c' then 1 else - 1))"
  by (simp add: compare_loop_sum upt_rec)

lemma technique_filter_compare:
  "compare_index_with_stock_performance (fixed_performance [s0, s1, s2] [i0, i1, i2])
     technique_filter =
   compare_loop [Num i0, Num i1, Num i2] [Num s2, Num s1, Num s0] 0 0"
  by (simp add: compare_index_with_stock_performance_def technique_filter_reads
      fixed_performance_reads)

lemma technique_filter_no_performance:
  "compare_index_with_stock_performance no_performance technique_filter = Inr 0"
  by (simp add: compare_index_with_stock_performance_def technique_filter_reads
      no_performance_def)

text \<open>
  Claim C5, as the code has it. The technique sub-score is \<open>+1\<close> when the signed sum
  that the comparison loop over the two performance sequences yields is exactly \<open>+3\<close>,
  \<open>-1\<close> when it is exactly \<open>-3\<close>, and 0 for any other sum. If either performance
  sequence is empty, the sum and the sub-score are 0.
\<close>

theorem calculate_technique_mapping:
  assumes "compare_index_with_stock_performance x e = Inr perf_measure"
  shows "calculate_technique x e =
      Inr (if perf_measure = 3 then 1 else if perf_measure = - 3 then - 1 else 0)
    \<and> (column0 (bars e) = Inr close_prices
        \<and> get_performance x close_prices 30 = Inr stock_result
        \<and> column0 (index_bars e) = Inr index_closes
        \<and> get_performance x index_closes 30 = Inr index_result
        \<and> (elements stock_result = [] \<or> elements index_result = []) \<longrightarrow>
        perf_measure = 0 \<and> calculate_technique x e = Inr 0)"
proof -
  have mapping: "calculate_technique x e =
      Inr (if perf_measure = 3 then 1 else if perf_measure = - 3 then - 1 else 0)"
    using assms by (simp add: calculate_technique_def)
  have empty: "perf_measure = 0 \<and> calculate_technique x e = Inr 0"
    if r: "column0 (bars e) = Inr close_prices"
      "get_performance x close_prices 30 = Inr stock_result"
      "column0 (index_bars e) = Inr index_closes"
      "get_performance x index_closes 30 = Inr index_result"
      and none: "elements stock_result = [] \<or> elements index_result = []"
  proof -
    from none compare_unfolded [OF r] assms have "perf_measure = 0" by auto
    with mapping show ?thesis by simp
  qed
  from mapping empty show ?thesis by blast
qed

theorem calculate_technique_mapping_witness:
  "compare_index_with_stock_performance (fixed_performance [0, 2, 4] [5, 3, 1])
     technique_filter = Inr 3
   \<and> calculate_technique (fixed_performance [0, 2, 4] [5, 3, 1]) technique_filter = Inr 1
   \<and> compare_index_with_stock_performance (fixed_performance [0, 2, 4] [1, 3, 5])
     technique_filter = Inr 1
   \<and> calculate_technique (fixed_performance [0, 2, 4] [1, 3, 5]) technique_filter = Inr 0
   \<and> column0 (bars technique_filter) = Inr [Num 10, Num 10, Num 10]
   \<and> get_performance no_performance [Num 10, Num 10, Num 10] 30 = Inr (NdArray [] False)
   \<and> column0 (index_bars technique_filter) = Inr [Num 20, Num 20, Num 20]
   \<and> get_performance no_performance [Num 20, Num 20, Num 20] 30 = Inr (NdArray [] False)
   \<and> elements (NdArray [] False) = []
   \<and> compare_index_with_stock_performance no_performance technique_filter = Inr 0
   \<and> calculate_technique no_performance technique_filter = Inr 0"
proof -
  have c3: "compare_index_with_stock_performance (fixed_performance [0, 2, 4] [5, 3, 1])
     technique_filter = Inr 3"
    by (simp add: technique_filter_compare compare_loop_3)
  have c1: "compare_index_with_stock_performance (fixed_performance [0, 2, 4] [1, 3, 5])
     technique_filter = Inr 1"
    by (simp add: technique_filter_compare compare_loop_3)
  have c0: "compare_index_with_stock_performance no_performance technique_filter = Inr 0"
    by (rule technique_filter_no_performance)
  have g0: "get_performance no_performance [Num 10, Num 10, Num 10] 30 = Inr (NdArray [] False)"
    "get_performance no_performance [Num 20, Num 20, Num 20] 30 = Inr (NdArray [] False)"
    by (simp_all add: no_performance_def)
  have e0: "elements (NdArray [] False) = []" by simp
  from calculate_technique_mapping [OF c3]
  have t3: "calculate_technique (fixed_performance [0, 2, 4] [5, 3, 1]) technique_filter = Inr 1"
    by simp
  from calculate_technique_mapping [OF c1]
  have t1: "calculate_technique (fixed_performance [0, 2, 4] [1, 3, 5]) technique_filter = Inr 0"
    by simp
  from calculate_technique_mapping [OF c0, of "[Num 10, Num 10, Num 10]" "NdArray [] False"
      "[Num 20, Num 20, Num 20]" "NdArray [] False"] technique_filter_reads g0 e0
  have t0: "calculate_technique no_performance technique_filter = Inr 0"
    by blast
  from c3 t3 c1 t1 technique_filter_reads g0 e0 c0 t0 show ?thesis by blast
qed

text \<open>
  Claim C5, as stated, maps a sum of \<open>+3\<close> to \<open>-1\<close> and a sum of \<open>-3\<close> to
  \<open>+1\<close>. With index performances 5, 3, 1 and stock performances 0, 2, 4 (oldest
  interval first) the loop compares 5 with 4, 3 with 2 and 1 with 0, the sum is \<open>+3\<close>
  and the sub-score is \<open>+1\<close>; with index performances of 0 against stock performances
  of 1 the sum is \<open>-3\<close> and the sub-score is \<open>-1\<close>.
\<close>

theorem calculate_technique_counterexample:
  "compare_index_with_stock_performance (fixed_performance [0, 2, 4] [5, 3, 1])
     technique_filter = Inr 3
   \<and> calculate_technique (fixed_performance [0, 2, 4] [5, 3, 1]) technique_filter = Inr 1
   \<and> calculate_technique (fixed_performance [0, 2, 4] [5, 3, 1]) technique_filter \<noteq> Inr (- 1)
   \<and> compare_index_with_stock_performance (fixed_performance [1, 1, 1] [0, 0, 0])
     technique_filter = Inr (- 3)
   \<and> calculate_technique (fixed_performance [1, 1, 1] [0, 0, 0]) technique_filter = Inr (- 1)
   \<and> calculate_technique (fixed_performance [1, 1, 1] [0, 0, 0]) technique_filter \<noteq> Inr 1"
  by (simp add: calculate_technique_def technique_filter_compare compare_loop_3)

subsection \<open>Growth\<close>

text \<open>
  The loop over the quarter offsets 0, 4, 8, 12, 16 assigns \<open>eps_last\<close> at every
  sample that is not the sentinel \<open>-1\<close> and does not stop at the first one: it ends
  on the available sample of the largest offset.
\<close>

lemma eps_last_loop_reads:
  assumes "get_data_attr (stock e) ''income'' ''dilutedEpsExtraOrd'' True 0 = Inr s0"
    and "get_data_attr (stock e) ''income'' ''dilutedEpsExtraOrd'' True 4 = Inr s4"
    and "get_data_attr (stock e) ''income'' ''dilutedEpsExtraOrd'' True 8 = Inr s8"
    and "get_data_attr (stock e) ''income'' ''dilutedEpsExtraOrd'' True 12 = Inr s12"
    and "get_data_attr (stock e) ''income'' ''dilutedEpsExtraOrd'' True 16 = Inr s16"
  shows "eps_last_loop e [0..<5] 0 =
    Inr (case find (\<lambda>v. v \<noteq> - 1) [s16, s12, s8, s4, s0] of None \<Rightarrow> 0 | Some v \<Rightarrow> v)"
  using assms by (simp add: upt_0_5)

lemma example_samples:
  "get_data_attr (stock (example_filter eps latest previous))
     ''income'' ''dilutedEpsExtraOrd'' True 0 = Inr 2"
  "get_data_attr (stock (example_filter eps latest previous))
     ''income'' ''dilutedEpsExtraOrd'' True 4 = Inr 1"
  "get_data_attr (stock (example_filter eps latest previous))
     ''income'' ''dilutedEpsExtraOrd'' True 8 = Inr (- 1)"
  "get_data_attr (stock (example_filter eps latest previous))
     ''income'' ''dilutedEpsExtraOrd'' True 12 = Inr (- 1)"
  "get_data_attr (stock (example_filter eps latest previous))
     ''income'' ''dilutedEpsExtraOrd'' True 16 = Inr (- 1)"
  by (simp_all add: example_filter_def example_attr_def)

text \<open>
  Claim C6. The claim is that the growth sub-score compares the earnings estimate with the
  most recent available of the five annual samples (more than 5 percent above it scores
  \<open>+1\<close>, more than 5 percent below it \<open>-1\<close>). The source names the value
  \<open>eps_last\<close> and walks the samples from the most recent one backwards, but without
  leaving the loop at the first available sample, so the estimate is compared with the
  oldest available one. On the example snapshot the estimate is 2 and the samples at the
  offsets 0, 4, 8, 12, 16 are 2, 1, -1, -1, -1: the comparison with the most recent
  available sample (2) gives a difference of 0 percent and a sub-score of 0, whereas the
  code compares with 1, finds 50 percent and returns \<open>+1\<close>.
\<close>

theorem calculate_growing_uses_oldest_sample:
  "get_data_attr (stock (example_filter 2 scenario_b_distribution 0))
      ''recommendation'' ''eps'' False 0 = Inr 2
   \<and> map (get_data_attr (stock (example_filter 2 scenario_b_distribution 0))
          ''income'' ''dilutedEpsExtraOrd'' True) [0, 4, 8, 12, 16]
       = [Inr 2, Inr 1, Inr (- 1), Inr (- 1), Inr (- 1)]
   \<and> specified_growth 2 [2, 1, - 1, - 1, - 1] = Some 0
   \<and> calculate_eps_difference (example_filter 2 scenario_b_distribution 0) = Inr 50
   \<and> calculate_growing (example_filter 2 scenario_b_distribution 0) = Inr 1"
  by (simp add: example_reads example_samples specified_growth_def example_growing_2
      example_eps_difference)

subsection \<open>Mood\<close>



subsection \<open>Momentum\<close>

lemma single_bucket_trendsrating:
  "analysts \<noteq> 0 \<Longrightarrow> calculate_trendsrating (PyList [bucket rating analysts]) = Inr rating"
  by (simp add: calculate_trendsrating_def bucket_def py_div_def)

lemma single_bucket_rating_difference:
  "rating \<noteq> 0 \<Longrightarrow>
   calculate_rating_differences_in_percent (example_filter eps (PyList [bucket rating 1]) previous)
     = Inr (100 * (4 - rating) / rating)"
  by (simp add: calculate_rating_differences_in_percent_def example_distribution
      example_trendsrating single_bucket_trendsrating py_div_def)

lemma rating_change_difference:
  "calculate_rating_differences_in_percent rating_change_filter = Inr 10"
  by (simp add: calculate_rating_differences_in_percent_def trends_distribution_def
      rating_change_filter_def rating_change_data_def calculate_trendsrating_def bucket_def
      py_div_def)

lemma rating_change_performance:
  "calculate_performance rating_change_filter = Inr [Num 0, Num 0]"
  by (simp add: calculate_performance_def column0_def rows_of_def item_last_def item_at_def
      rating_change_filter_def example_filter_def example_bars_def)

text \<open>
  Claim C8. In the momentum sub-score, the rating-change criterion adds \<open>+1\<close> when the
  rating change is greater than 10 percent and \<open>-1\<close> when it is less than 10 percent;
  it adds 0 exactly when the rating change equals 10. The other three terms of the
  sub-score are the two performance criteria and the rising-momentum criterion.
\<close>

theorem calculate_momentum_rating_change:
  assumes "calculate_rating_differences_in_percent e = Inr rating_dif_prc"
    and "calculate_performance e = Inr [perf_6m, perf_12m]"
    and "rating_points = (if rating_dif_prc > 10 then 1 else if rating_dif_prc < 10 then - 1 else 0)"
  shows "calculate_momentum e =
      Inr (rating_points
           + (if perf_6m > Num 0.05 then 1 else if perf_6m < Num (- 0.05) then - 1 else 0)
           + (if perf_12m > Num 0.05 then 1 else if perf_12m < Num (- 0.05) then - 1 else 0)
           + (if perf_6m > Num 0.05
                 \<and> ((Num 0.05 > perf_12m \<and> perf_12m > Num (- 0.05))
                      \<or> perf_12m < Num (- 0.05))
              then 1
              else if perf_6m < Num (- 0.05)
                   \<and> ((Num 0.05 > perf_12m \<and> perf_12m > Num (- 0.05))
                        \<or> perf_12m > Num 0.05)
              then - 1 else 0))
    \<and> (rating_dif_prc > 10 \<longrightarrow> rating_points = 1)
    \<and> (rating_dif_prc < 10 \<longrightarrow> rating_points = - 1)
    \<and> (rating_points = 0 \<longleftrightarrow> rating_dif_prc = 10)"
proof -
  have momentum: "calculate_momentum e =
      Inr (rating_points
           + (if perf_6m > Num 0.05 then 1 else if perf_6m < Num (- 0.05) then - 1 else 0)
           + (if perf_12m > Num 0.05 then 1 else if perf_12m < Num (- 0.05) then - 1 else 0)
           + (if perf_6m > Num 0.05
                 \<and> ((Num 0.05 > perf_12m \<and> perf_12m > Num (- 0.05))
                      \<or> perf_12m < Num (- 0.05))
              then 1
              else if perf_6m < Num (- 0.05)
                   \<and> ((Num 0.05 > perf_12m \<and> perf_12m > Num (- 0.05))
                        \<or> perf_12m > Num 0.05)
              then - 1 else 0))"
    using assms(1,2) unfolding assms(3) by (simp add: calculate_momentum_def Let_def)
  have points: "(rating_dif_prc > 10 \<longrightarrow> rating_points = 1)
    \<and> (rating_dif_prc < 10 \<longrightarrow> rating_points = - 1)
    \<and> (rating_points = 0 \<longleftrightarrow> rating_dif_prc = 10)"
    unfolding assms(3) by auto
  from momentum points show ?thesis by blast
qed

theorem calculate_momentum_rating_change_witness:
  "calculate_performance (example_filter 2 scenario_b_distribution 0) = Inr [Num 0, Num 0]
   \<and> calculate_rating_differences_in_percent (example_filter 2 scenario_b_distribution 0) = Inr 0
   \<and> calculate_momentum (example_filter 2 scenario_b_distribution 0) = Inr (- 1)
   \<and> calculate_rating_differences_in_percent (example_filter 2 (PyList [bucket 2 1]) 0) = Inr 100
   \<and> calculate_momentum (example_filter 2 (PyList [bucket 2 1]) 0) = Inr 1
   \<and> calculate_performance rating_change_filter = Inr [Num 0, Num 0]
   \<and> calculate_rating_differences_in_percent rating_change_filter = Inr 10
   \<and> calculate_momentum rating_change_filter = Inr 0"
proof -
  let ?e = "example_filter 2 scenario_b_distribution 0"
  let ?up = "example_filter 2 (PyList [bucket 2 1]) 0"
  have d_up: "calculate_rating_differences_in_percent ?up = Inr 100"
    by (simp add: single_bucket_rating_difference)
  have p: "(- 1 :: int) = (if (0::real) > 10 then 1 else if (0::real) < 10 then - 1 else 0)"
    by simp
  have p_up: "(1 :: int) = (if (100::real) > 10 then 1 else if (100::real) < 10 then - 1 else 0)"
    by simp
  have p_eq: "(0 :: int) = (if (10::real) > 10 then 1 else if (10::real) < 10 then - 1 else 0)"
    by simp
  from calculate_momentum_rating_change [OF example_rating_difference example_performance p]
  have m: "calculate_momentum ?e = Inr (- 1)" by simp
  from calculate_momentum_rating_change [OF d_up example_performance p_up]
  have m_up: "calculate_momentum ?up = Inr 1" by simp
  from calculate_momentum_rating_change
    [OF rating_change_difference rating_change_performance p_eq]
  have m_eq: "calculate_momentum rating_change_filter = Inr 0" by simp
  from m m_up m_eq d_up show ?thesis
    by (simp add: example_rating_difference example_performance rating_change_difference
        rating_change_performance)
qed

end
